theory Spec2Isabelle
  imports Main
begin

section \<open>autofix.py: a shallow embedding\<close>

text \<open>
  The program talks to its surroundings in four ways: it tests whether a path
  exists, it reads a file as text, it starts child processes and it writes lines to
  standard output. The surroundings are a value of an arbitrary type \<open>'w\<close> together
  with the functions of the record \<open>env\<close> that say what each of these operations
  answers there. Everything the program does that can be observed from outside (a line
  printed, a process started, a file opened for reading) is appended to a trace.
\<close>

subsection \<open>Python strings\<close>

text \<open>\<open>sep.join(xs)\<close>\<close>

fun py_join :: "string \<Rightarrow> string list \<Rightarrow> string" where
  "py_join sep [] = []"
| "py_join sep [x] = x"
| "py_join sep (x # y # ys) = x @ sep @ py_join sep (y # ys)"

text \<open>\<open>s.split('\n')[-1]\<close>: what follows the last newline (all of \<open>s\<close> without one).\<close>

definition last_line :: "string \<Rightarrow> string" where
  "last_line s = rev (takeWhile (\<lambda>c. c \<noteq> CHR 0x0A) (rev s))"

text \<open>\<open>sub in s\<close> on strings.\<close>

fun py_in_str :: "string \<Rightarrow> string \<Rightarrow> bool" where
  "py_in_str sub [] = (sub = [])"
| "py_in_str sub (c # cs) = (take (length sub) (c # cs) = sub \<or> py_in_str sub cs)"

text \<open>\<open>str(n)\<close> for an integer.\<close>

fun str_nat :: "nat \<Rightarrow> string" where
  "str_nat n =
     (if n < 10 then [char_of (48 + n)] else str_nat (n div 10) @ [char_of (48 + n mod 10)])"

declare str_nat.simps [simp del]

definition str_int :: "int \<Rightarrow> string" where
  "str_int i = (if i < 0 then ''-'' @ str_nat (nat (- i)) else str_nat (nat i))"

text \<open>The symbols of the status lines, as the bytes of their UTF-8 encoding.\<close>

definition sym_cross :: string where "sym_cross = [CHR 0xE2, CHR 0x9D, CHR 0x8C]"
definition sym_snake :: string where "sym_snake = [CHR 0xF0, CHR 0x9F, CHR 0x90, CHR 0x8D]"
definition sym_package :: string where "sym_package = [CHR 0xF0, CHR 0x9F, CHR 0x93, CHR 0xA6]"
definition sym_crab :: string where "sym_crab = [CHR 0xF0, CHR 0x9F, CHR 0xA6, CHR 0x80]"
definition sym_bird :: string where "sym_bird = [CHR 0xF0, CHR 0x9F, CHR 0x90, CHR 0xA6]"
definition sym_link :: string where "sym_link = [CHR 0xF0, CHR 0x9F, CHR 0x94, CHR 0x97]"
definition sym_sparkles :: string where "sym_sparkles = [CHR 0xE2, CHR 0x9C, CHR 0xA8]"
definition sym_glass :: string where "sym_glass = [CHR 0xF0, CHR 0x9F, CHR 0x94, CHR 0x8D]"
definition sym_check :: string where "sym_check = [CHR 0xE2, CHR 0x9C, CHR 0x85]"
definition sym_party :: string where "sym_party = [CHR 0xF0, CHR 0x9F, CHR 0x8E, CHR 0x89]"
definition sym_bulb :: string where "sym_bulb = [CHR 0xF0, CHR 0x9F, CHR 0x92, CHR 0xA1]"
definition sym_warning :: string where
  "sym_warning = [CHR 0xE2, CHR 0x9A, CHR 0xA0, CHR 0xEF, CHR 0xB8, CHR 0x8F]"
definition sym_dash :: string where "sym_dash = [CHR 0xE2, CHR 0x80, CHR 0x93]"

subsection \<open>Commands, configuration and the surroundings\<close>

text \<open>\<open>Union[str, List[str]]\<close>\<close>

datatype cmd = CmdStr string | CmdList "string list"

record RuntimeConfig =
  dry_run :: bool
  verbose :: bool
  is_windows :: bool

text \<open>\<open>VENV_PATHS\<close>: one entry for each platform family, with its two keys.\<close>

record venv_entry =
  venv_python :: string
  venv_pip :: string

definition VENV_PATHS_windows :: venv_entry where
  "VENV_PATHS_windows = \<lparr>venv_python = ''Scripts/python.exe'', venv_pip = ''Scripts/pip.exe''\<rparr>"

definition VENV_PATHS_unix :: venv_entry where
  "VENV_PATHS_unix = \<lparr>venv_python = ''bin/python'', venv_pip = ''bin/pip''\<rparr>"

definition venv_paths :: "RuntimeConfig \<Rightarrow> venv_entry" where
  "venv_paths cfg = (if is_windows cfg then VENV_PATHS_windows else VENV_PATHS_unix)"

text \<open>
  What \<open>subprocess.run(..., check=True)\<close> is called with, and the three ways it ends that
  the program handles: it returns (exit status 0, with the captured standard output), it
  raises \<open>CalledProcessError\<close> (a nonzero exit status, with the captured standard error),
  or it raises \<open>FileNotFoundError\<close>.
\<close>

record spawn_req =
  sp_cmd :: cmd
  sp_shell :: bool
  sp_cwd :: "string option"

datatype proc_result =
    Completed string
  | CalledProcessError int string
  | FileNotFoundError

text \<open>
  \<open>Path.read_text()\<close>: the text, an \<open>OSError\<close> (no permission, a directory, ...), or
  a \<open>UnicodeDecodeError\<close> when the bytes are not text in the locale's encoding.
\<close>

datatype read_result = ReadText string | ReadOSError | ReadUnicodeDecodeError

text \<open>The values \<open>json.loads\<close> returns.\<close>

datatype json =
    JNull
  | JBool bool
  | JInt int
  | JFloat string
  | JString string
  | JArray "json list"
  | JObject "(string \<times> json) list"

text \<open>
  The surroundings. \<open>os_nt\<close> is \<open>os.name == 'nt'\<close>. A child process may change the
  surroundings (it creates the virtual environment, say), so \<open>subprocess_run\<close> returns
  the new ones. The last three fields are functions of the Python library that the program
  calls and that are taken as they are: \<open>json_loads\<close> is \<open>json.loads\<close> and answers \<open>None\<close>
  where that raises \<open>JSONDecodeError\<close>, \<open>str_strip\<close> is \<open>str.strip()\<close>, and \<open>str_repr\<close> is
  \<open>repr\<close> of a string.
\<close>

record 'w env =
  os_nt :: bool
  sys_executable :: string
  path_exists :: "'w \<Rightarrow> string \<Rightarrow> bool"
  read_text :: "'w \<Rightarrow> string \<Rightarrow> read_result"
  subprocess_run :: "'w \<Rightarrow> spawn_req \<Rightarrow> proc_result \<times> 'w"
  json_loads :: "string \<Rightarrow> json option"
  str_strip :: "string \<Rightarrow> string"
  str_repr :: "string \<Rightarrow> string"

datatype event = Print string | Spawn spawn_req | Read string

type_synonym 'w st = "'w \<times> event list"

text \<open>The exceptions that reach the caller, and how the process ends.\<close>

datatype exn = UnicodeDecodeError | AttributeError | TypeError

datatype outcome = Returned | SysExit int | Uncaught exn

definition print :: "string \<Rightarrow> 'w st \<Rightarrow> 'w st" where
  "print line s = (fst s, snd s @ [Print line])"

definition run :: "'w env \<Rightarrow> spawn_req \<Rightarrow> 'w st \<Rightarrow> proc_result \<times> 'w st" where
  "run env rq s =
     (let (r, w') = subprocess_run env (fst s) rq in (r, (w', snd s @ [Spawn rq])))"

definition read_file :: "'w env \<Rightarrow> string \<Rightarrow> 'w st \<Rightarrow> read_result \<times> 'w st" where
  "read_file env p s = (read_text env (fst s) p, (fst s, snd s @ [Read p]))"

text \<open>\<open>str(pathlib.Path(a) / b)\<close> for a relative \<open>b\<close>: the separator is that of the platform.\<close>

definition path_join :: "'w env \<Rightarrow> string \<Rightarrow> string \<Rightarrow> string" where
  "path_join env a b =
     (if os_nt env then a @ [CHR 0x5C] @ map (\<lambda>c. if c = CHR ''/'' then CHR 0x5C else c) b
      else a @ ''/'' @ b)"

subsection \<open>CommandRunner\<close>

definition cmd_display :: "cmd \<Rightarrow> string" where
  "cmd_display c = (case c of CmdList xs \<Rightarrow> py_join '' '' xs | CmdStr s \<Rightarrow> s)"

text \<open>
  The command inside an f-string: \<open>str\<close> of a string, or of a list, which writes the
  \<open>repr\<close> of each element.
\<close>

definition py_str_list :: "'w env \<Rightarrow> string list \<Rightarrow> string" where
  "py_str_list env xs = ''['' @ py_join '', '' (map (str_repr env) xs) @ '']''"

definition cmd_str :: "'w env \<Rightarrow> cmd \<Rightarrow> string" where
  "cmd_str env c = (case c of CmdList xs \<Rightarrow> py_str_list env xs | CmdStr s \<Rightarrow> s)"

definition prepare_command :: "RuntimeConfig \<Rightarrow> cmd \<Rightarrow> cmd" where
  "prepare_command cfg c =
     (case c of
        CmdList xs \<Rightarrow> if is_windows cfg then CmdStr (py_join '' '' xs) else c
      | CmdStr s \<Rightarrow> c)"

definition handle_error ::
  "'w env \<Rightarrow> RuntimeConfig \<Rightarrow> cmd \<Rightarrow> int \<Rightarrow> string \<Rightarrow> 'w st \<Rightarrow> 'w st" where
  "handle_error env cfg c returncode stderr s =
     (let s1 = print (''  '' @ sym_cross @ '' Command failed: '' @ cmd_display c) s in
      if verbose cfg then
        (let s2 = print (''  Error code: '' @ str_int returncode) s1
         in if stderr \<noteq> [] then print (''  Error: '' @ str_strip env stderr) s2 else s2)
      else if stderr \<noteq> [] then print (''  Error: '' @ last_line (str_strip env stderr)) s1
      else s1)"

definition execute :: "'w env \<Rightarrow> RuntimeConfig \<Rightarrow> cmd \<Rightarrow> string option \<Rightarrow> 'w st \<Rightarrow> bool \<times> 'w st" where
  "execute env cfg c cwd s =
     (if dry_run cfg then (True, print (''  [DRY] '' @ cmd_display c) s)
      else
        (let shell_cmd = prepare_command cfg c;
             s1 = (if verbose cfg then print (''  Running: '' @ cmd_display c) s else s)
         in case run env \<lparr>sp_cmd = shell_cmd, sp_shell = is_windows cfg, sp_cwd = cwd\<rparr> s1 of
              (Completed out, s2) \<Rightarrow>
                (True, if verbose cfg \<and> str_strip env out \<noteq> []
                       then print (''  Output: '' @ str_strip env out) s2 else s2)
            | (CalledProcessError returncode stderr, s2) \<Rightarrow>
                (False, handle_error env cfg c returncode stderr s2)
            | (FileNotFoundError, s2) \<Rightarrow>
                (False, print (''  '' @ sym_cross @ '' Command not found: '' @ cmd_str env c) s2)))"

subsection \<open>ProjectDetector\<close>

definition PROJECT_DETECTORS :: "(string \<times> string list) list" where
  "PROJECT_DETECTORS =
     [(''node'', [''package.json'']),
      (''python'', [''requirements.txt'', ''pyproject.toml'', ''setup.py'']),
      (''rust'', [''Cargo.toml'']),
      (''flutter'', [''pubspec.yaml'']),
      (''git'', [''.git''])]"

definition detect_languages :: "'w env \<Rightarrow> 'w \<Rightarrow> string list" where
  "detect_languages env w =
     map fst (filter (\<lambda>(lang, files). list_ex (path_exists env w) files) PROJECT_DETECTORS)"

definition probe_req :: "string \<Rightarrow> spawn_req" where
  "probe_req c = \<lparr>sp_cmd = CmdStr (c @ '' --version''), sp_shell = True, sp_cwd = None\<rparr>"

definition has_command :: "'w env \<Rightarrow> string \<Rightarrow> 'w st \<Rightarrow> bool \<times> 'w st" where
  "has_command env c s =
     (case run env (probe_req c) s of
        (Completed out, s1) \<Rightarrow> (True, s1)
      | (CalledProcessError returncode stderr, s1) \<Rightarrow> (False, s1)
      | (FileNotFoundError, s1) \<Rightarrow> (False, s1))"

definition lock_files :: "(string \<times> string) list" where
  "lock_files =
     [(''pnpm-lock.yaml'', ''pnpm''), (''yarn.lock'', ''yarn''), (''package-lock.json'', ''npm'')]"

text \<open>The \<open>for\<close> loop of \<open>get_package_manager\<close>; \<open>None\<close> when it ends without returning.\<close>

fun lock_file_loop :: "'w env \<Rightarrow> (string \<times> string) list \<Rightarrow> 'w st \<Rightarrow> string option \<times> 'w st" where
  "lock_file_loop env [] s = (None, s)"
| "lock_file_loop env ((lock_file, pm) # rest) s =
     (if path_exists env (fst s) lock_file
      then (case has_command env pm s of
              (ok, s1) \<Rightarrow> if ok then (Some pm, s1) else lock_file_loop env rest s1)
      else lock_file_loop env rest s)"

text \<open>\<open>next((pm for pm in pms if _has_command(pm)), None)\<close>\<close>

fun next_available :: "'w env \<Rightarrow> string list \<Rightarrow> 'w st \<Rightarrow> string option \<times> 'w st" where
  "next_available env [] s = (None, s)"
| "next_available env (pm # pms) s =
     (case has_command env pm s of
        (ok, s1) \<Rightarrow> if ok then (Some pm, s1) else next_available env pms s1)"

definition get_package_manager :: "'w env \<Rightarrow> 'w st \<Rightarrow> string option \<times> 'w st" where
  "get_package_manager env s =
     (case lock_file_loop env lock_files s of
        (Some pm, s1) \<Rightarrow> (Some pm, s1)
      | (None, s1) \<Rightarrow> next_available env [''npm'', ''pnpm'', ''yarn''] s1)"

subsection \<open>ProjectSetup\<close>

definition install_python_deps :: "'w env \<Rightarrow> RuntimeConfig \<Rightarrow> string \<Rightarrow> 'w st \<Rightarrow> bool \<times> 'w st" where
  "install_python_deps env cfg pip_path s =
     (if path_exists env (fst s) ''requirements.txt'' then
        execute env cfg (CmdList [pip_path, ''install'', ''-r'', ''requirements.txt'']) None
          (print ''  Installing requirements.txt...'' s)
      else if path_exists env (fst s) ''pyproject.toml'' then
        execute env cfg (CmdList [pip_path, ''install'', ''-e'', ''.'']) None
          (print ''  Installing pyproject.toml...'' s)
      else (True, s))"

definition venv_create_cmd :: "'w env \<Rightarrow> cmd" where
  "venv_create_cmd env = CmdList [sys_executable env, ''-m'', ''venv'', ''.venv'']"

definition setup_python :: "'w env \<Rightarrow> RuntimeConfig \<Rightarrow> 'w st \<Rightarrow> bool \<times> 'w st" where
  "setup_python env cfg s =
     (let s1 = print (sym_snake @ '' Python setup...'') s;
          pip_path = path_join env ''.venv'' (venv_pip (venv_paths cfg))
      in if \<not> path_exists env (fst s1) ''.venv'' then
           (case execute env cfg (venv_create_cmd env) None
                   (print ''  Creating virtual environment...'' s1) of
              (ok, s2) \<Rightarrow> if \<not> ok then (False, s2) else install_python_deps env cfg pip_path s2)
         else install_python_deps env cfg pip_path s1)"

definition setup_node :: "'w env \<Rightarrow> RuntimeConfig \<Rightarrow> 'w st \<Rightarrow> bool \<times> 'w st" where
  "setup_node env cfg s =
     (case get_package_manager env (print (sym_package @ '' Node.js setup...'') s) of
        (None, s1) \<Rightarrow>
          (False, print (''  '' @ sym_cross
                    @ '' No package manager found. Install Node.js from https://nodejs.org/'') s1)
      | (Some pm, s1) \<Rightarrow>
          (let s2 = print (''  Using: '' @ pm) s1 in
           if pm = ''npm'' \<and> path_exists env (fst s2) ''package-lock.json'' then
             (case execute env cfg (CmdStr ''npm ci'') None s2 of
                (ok, s3) \<Rightarrow>
                  if ok then (True, s3) else execute env cfg (CmdStr (pm @ '' install'')) None s3)
           else execute env cfg (CmdStr (pm @ '' install'')) None s2))"

definition setup_rust :: "'w env \<Rightarrow> RuntimeConfig \<Rightarrow> 'w st \<Rightarrow> bool \<times> 'w st" where
  "setup_rust env cfg s =
     (case has_command env ''cargo'' (print (sym_crab @ '' Rust setup...'') s) of
        (ok, s1) \<Rightarrow>
          if \<not> ok then
            (False, print (''  '' @ sym_cross @ '' Cargo not found. Install from https://rustup.rs/'') s1)
          else execute env cfg (CmdList [''cargo'', ''fetch'']) None s1)"

definition has_build_runner :: "'w env \<Rightarrow> RuntimeConfig \<Rightarrow> 'w st \<Rightarrow> (exn + bool) \<times> 'w st" where
  "has_build_runner env cfg s =
     (if \<not> path_exists env (fst s) ''pubspec.yaml'' \<or> dry_run cfg then (Inr False, s)
      else (case read_file env ''pubspec.yaml'' s of
              (ReadText t, s1) \<Rightarrow> (Inr (py_in_str ''build_runner:'' t), s1)
            | (ReadOSError, s1) \<Rightarrow> (Inr False, s1)
            | (ReadUnicodeDecodeError, s1) \<Rightarrow> (Inl UnicodeDecodeError, s1)))"

definition flutter_fetch_cmd :: cmd where
  "flutter_fetch_cmd = CmdStr ''flutter pub get''"

definition flutter_build_cmd :: cmd where
  "flutter_build_cmd =
     CmdStr ''flutter packages pub run build_runner build --delete-conflicting-outputs''"

definition setup_flutter :: "'w env \<Rightarrow> RuntimeConfig \<Rightarrow> 'w st \<Rightarrow> (exn + bool) \<times> 'w st" where
  "setup_flutter env cfg s =
     (case has_command env ''flutter'' (print (sym_bird @ '' Flutter setup...'') s) of
        (ok, s1) \<Rightarrow>
          if \<not> ok then
            (Inr False,
             print (''  '' @ sym_cross @ '' Flutter not found. Install from https://flutter.dev/'') s1)
          else
            (case execute env cfg flutter_fetch_cmd None s1 of
               (success, s2) \<Rightarrow>
                 (case has_build_runner env cfg s2 of
                    (Inl e, s3) \<Rightarrow> (Inl e, s3)
                  | (Inr b, s3) \<Rightarrow>
                      if b then
                        (case execute env cfg flutter_build_cmd None s3 of
                           (ok2, s4) \<Rightarrow> (Inr (success \<and> ok2), s4))
                      else (Inr success, s3))))"

definition get_python_executable :: "'w env \<Rightarrow> RuntimeConfig \<Rightarrow> 'w \<Rightarrow> string" where
  "get_python_executable env cfg w =
     (let p = path_join env ''.venv'' (venv_python (venv_paths cfg))
      in if path_exists env w p then p else sys_executable env)"

definition setup_git_hooks :: "'w env \<Rightarrow> RuntimeConfig \<Rightarrow> 'w st \<Rightarrow> bool \<times> 'w st" where
  "setup_git_hooks env cfg s =
     (if \<not> path_exists env (fst s) ''.pre-commit-config.yaml'' then (True, s)
      else
        (let s1 = print (sym_link @ '' Pre-commit setup...'') s;
             python_cmd = get_python_executable env cfg (fst s1)
         in execute env cfg (CmdList [python_cmd, ''-m'', ''pre_commit'', ''install'']) None s1))"

subsection \<open>CodeFormatter\<close>

definition package_probe_req :: "string \<Rightarrow> string \<Rightarrow> spawn_req" where
  "package_probe_req python_exe package =
     \<lparr>sp_cmd = CmdList [python_exe, ''-c'', ''import '' @ package], sp_shell = False, sp_cwd = None\<rparr>"

definition has_python_package :: "'w env \<Rightarrow> string \<Rightarrow> string \<Rightarrow> 'w st \<Rightarrow> bool \<times> 'w st" where
  "has_python_package env python_exe package s =
     (case run env (package_probe_req python_exe package) s of
        (Completed out, s1) \<Rightarrow> (True, s1)
      | (CalledProcessError returncode stderr, s1) \<Rightarrow> (False, s1)
      | (FileNotFoundError, s1) \<Rightarrow> (False, s1))"

text \<open>The \<open>for\<close> loop of \<open>_format_python\<close> over the formatters and their commands.\<close>

fun formatter_loop ::
  "'w env \<Rightarrow> RuntimeConfig \<Rightarrow> string \<Rightarrow> (string \<times> cmd) list \<Rightarrow> 'w st \<Rightarrow> bool \<times> 'w st" where
  "formatter_loop env cfg python_exe [] s = (True, s)"
| "formatter_loop env cfg python_exe ((formatter_name, c) # rest) s =
     (case has_python_package env python_exe formatter_name s of
        (ok, s1) \<Rightarrow>
          if ok then
            execute env cfg c None
              (print (sym_sparkles @ '' Formatting with '' @ formatter_name @ ''...'') s1)
          else formatter_loop env cfg python_exe rest s1)"

definition format_python :: "'w env \<Rightarrow> RuntimeConfig \<Rightarrow> 'w st \<Rightarrow> bool \<times> 'w st" where
  "format_python env cfg s =
     (let p = path_join env ''.venv'' (venv_python (venv_paths cfg)) in
      if \<not> path_exists env (fst s) p then (True, s)
      else formatter_loop env cfg p
             [(''ruff'', CmdList [p, ''-m'', ''ruff'', ''format'', ''.'']),
              (''black'', CmdList [p, ''-m'', ''black'', ''.''])] s)"

text \<open>
  \<open>"format" in pkg_data.get("scripts", {})\<close>: only a dictionary has \<open>get\<close>; \<open>in\<close> looks
  for a key of a dictionary, an element of a list, a substring of a string, and raises
  \<open>TypeError\<close> on the other values.
\<close>

definition format_in_scripts :: "json \<Rightarrow> exn + bool" where
  "format_in_scripts pkg_data =
     (case pkg_data of
        JObject kvs \<Rightarrow>
          (case map_of (rev kvs) ''scripts'' of
             None \<Rightarrow> Inr False
           | Some (JObject scripts) \<Rightarrow> Inr (''format'' \<in> set (map fst scripts))
           | Some (JArray xs) \<Rightarrow> Inr (JString ''format'' \<in> set xs)
           | Some (JString t) \<Rightarrow> Inr (py_in_str ''format'' t)
           | Some _ \<Rightarrow> Inl TypeError)
      | _ \<Rightarrow> Inl AttributeError)"

definition has_npm_format_script :: "'w env \<Rightarrow> 'w st \<Rightarrow> (exn + bool) \<times> 'w st" where
  "has_npm_format_script env s =
     (if \<not> path_exists env (fst s) ''package.json'' then (Inr False, s)
      else (case read_file env ''package.json'' s of
              (ReadText t, s1) \<Rightarrow>
                (case json_loads env t of
                   None \<Rightarrow> (Inr False, s1)
                 | Some pkg_data \<Rightarrow> (format_in_scripts pkg_data, s1))
            | (ReadOSError, s1) \<Rightarrow> (Inr False, s1)
            | (ReadUnicodeDecodeError, s1) \<Rightarrow> (Inl UnicodeDecodeError, s1)))"

definition prettier_configs :: "string list" where
  "prettier_configs = [''.prettierrc'', ''prettier.config.js'', ''.prettierrc.json'']"

definition format_node :: "'w env \<Rightarrow> RuntimeConfig \<Rightarrow> 'w st \<Rightarrow> (exn + bool) \<times> 'w st" where
  "format_node env cfg s =
     (case has_npm_format_script env s of
        (Inl e, s1) \<Rightarrow> (Inl e, s1)
      | (Inr b, s1) \<Rightarrow>
          if b then
            (case execute env cfg (CmdStr ''npm run format'') None
                    (print (sym_sparkles @ '' Running npm format...'') s1) of
               (ok, s2) \<Rightarrow> (Inr ok, s2))
          else if list_ex (path_exists env (fst s1)) prettier_configs then
            (case execute env cfg (CmdStr ''npx prettier --write .'') None
                    (print (sym_sparkles @ '' Formatting with Prettier...'') s1) of
               (ok, s2) \<Rightarrow> (Inr ok, s2))
          else (Inr True, s1))"

definition format_flutter :: "'w env \<Rightarrow> RuntimeConfig \<Rightarrow> 'w st \<Rightarrow> bool \<times> 'w st" where
  "format_flutter env cfg s =
     execute env cfg (CmdStr ''dart format .'') None (print (sym_sparkles @ '' Formatting Dart...'') s)"

definition format_all ::
  "'w env \<Rightarrow> RuntimeConfig \<Rightarrow> string list \<Rightarrow> 'w st \<Rightarrow> (exn + bool) \<times> 'w st" where
  "format_all env cfg detected s =
     (case (if ''python'' \<in> set detected then format_python env cfg s else (True, s)) of
        (ok1, s1) \<Rightarrow>
          (case (if ''node'' \<in> set detected then format_node env cfg s1 else (Inr True, s1)) of
             (Inl e, s2) \<Rightarrow> (Inl e, s2)
           | (Inr ok2, s2) \<Rightarrow>
               (case (if ''flutter'' \<in> set detected then format_flutter env cfg s2
                      else (True, s2)) of
                  (ok3, s3) \<Rightarrow> (Inr (ok1 \<and> ok2 \<and> ok3), s3))))"

subsection \<open>The command line and \<open>main\<close>\<close>

definition doc :: string where
  "doc = [CHR 0x0A] @ ''autofix '' @ sym_dash @ '' Smart workspace auto-setup for developers.''
         @ [CHR 0x0A] @ ''Usage: python autofix.py [-n] [--help] [-v]'' @ [CHR 0x0A]"

text \<open>\<open>Inl code\<close> is \<open>sys.exit(code)\<close>.\<close>

definition parse_arguments :: "'w env \<Rightarrow> string list \<Rightarrow> 'w st \<Rightarrow> (int + RuntimeConfig) \<times> 'w st" where
  "parse_arguments env argv s =
     (if ''--help'' \<in> set argv \<or> ''-h'' \<in> set argv then
        (Inl 0,
         print ''  -h, --help       Show this help message''
           (print ''  -v, --verbose    Show detailed output and error messages''
             (print ''  -n, --dry-run    Show what would be done without executing''
               (print ([CHR 0x0A] @ ''Options:'') (print doc s)))))
      else
        (Inr \<lparr>dry_run = ''--dry-run'' \<in> set argv \<or> ''-n'' \<in> set argv,
              verbose = ''--verbose'' \<in> set argv \<or> ''-v'' \<in> set argv,
              is_windows = os_nt env\<rparr>, s))"

text \<open>A setup strategy that raises nothing, given the result type of those that may.\<close>

definition returns :: "('w st \<Rightarrow> bool \<times> 'w st) \<Rightarrow> 'w st \<Rightarrow> (exn + bool) \<times> 'w st" where
  "returns f s = (case f s of (ok, s1) \<Rightarrow> (Inr ok, s1))"

definition setup_methods ::
  "'w env \<Rightarrow> RuntimeConfig \<Rightarrow> string \<Rightarrow> ('w st \<Rightarrow> (exn + bool) \<times> 'w st) option" where
  "setup_methods env cfg project_type =
     (if project_type = ''python'' then Some (returns (setup_python env cfg))
      else if project_type = ''node'' then Some (returns (setup_node env cfg))
      else if project_type = ''rust'' then Some (returns (setup_rust env cfg))
      else if project_type = ''flutter'' then Some (setup_flutter env cfg)
      else if project_type = ''git'' then Some (returns (setup_git_hooks env cfg))
      else None)"

text \<open>
  \<open>all(setup_methods[t]() for t in detected if t in setup_methods)\<close>: \<open>all\<close> draws from
  the generator one strategy at a time and stops at the first that returns false.
\<close>

fun all_setups :: "'w env \<Rightarrow> RuntimeConfig \<Rightarrow> string list \<Rightarrow> 'w st \<Rightarrow> (exn + bool) \<times> 'w st" where
  "all_setups env cfg [] s = (Inr True, s)"
| "all_setups env cfg (project_type # rest) s =
     (case setup_methods env cfg project_type of
        None \<Rightarrow> all_setups env cfg rest s
      | Some setup \<Rightarrow>
          (case setup s of
             (Inl e, s1) \<Rightarrow> (Inl e, s1)
           | (Inr ok, s1) \<Rightarrow> if ok then all_setups env cfg rest s1 else (Inr False, s1)))"

definition main :: "'w env \<Rightarrow> string list \<Rightarrow> 'w st \<Rightarrow> outcome \<times> 'w st" where
  "main env argv s =
     (case parse_arguments env argv s of
        (Inl code, s1) \<Rightarrow> (SysExit code, s1)
      | (Inr cfg, s1) \<Rightarrow>
          (let s2 = print (sym_glass @ '' Detecting projects...'') s1;
               detected = detect_languages env (fst s2)
           in if detected = [] then (Returned, print ''No supported projects found.'' s2)
              else
                (case all_setups env cfg detected
                        (print (sym_check @ '' Found: '' @ py_join '', '' detected) s2) of
                   (Inl e, s3) \<Rightarrow> (Uncaught e, s3)
                 | (Inr ok, s3) \<Rightarrow>
                     (case format_all env cfg detected s3 of
                        (Inl e, s4) \<Rightarrow> (Uncaught e, s4)
                      | (Inr fok, s4) \<Rightarrow>
                          if ok \<and> fok then
                            (let s5 = print ([CHR 0x0A] @ sym_party @ '' Setup complete!'') s4 in
                             (Returned,
                              if ''python'' \<in> set detected then
                                print (sym_bulb @ '' Activate: ''
                                       @ (if is_windows cfg
                                          then ''.venv'' @ [CHR 0x5C] @ ''Scripts'' @ [CHR 0x5C] @ ''activate''
                                          else ''source .venv/bin/activate'')) s5
                              else s5))
                          else
                            (let s5 = print ([CHR 0x0A] @ sym_warning @ '' Some steps failed.'') s4 in
                             (SysExit 1,
                              if \<not> verbose cfg
                              then print (sym_bulb @ '' Run with -v flag for detailed errors'') s5
                              else s5))))))"

text \<open>
  The exit status of the process: 0 when \<open>main\<close> returns, the argument of \<open>sys.exit\<close>,
  and 1 when an exception reaches the top level (the interpreter prints the traceback
  and exits with status 1).
\<close>

definition exit_status :: "outcome \<Rightarrow> int" where
  "exit_status out = (case out of Returned \<Rightarrow> 0 | SysExit code \<Rightarrow> code | Uncaught e \<Rightarrow> 1)"

subsection \<open>Reading a trace\<close>

text \<open>The processes started, in order.\<close>

fun spawns :: "event list \<Rightarrow> spawn_req list" where
  "spawns [] = []"
| "spawns (Spawn rq # tr) = rq # spawns tr"
| "spawns (Print line # tr) = spawns tr"
| "spawns (Read p # tr) = spawns tr"

text \<open>The files opened for reading, in order.\<close>

fun reads :: "event list \<Rightarrow> string list" where
  "reads [] = []"
| "reads (Read p # tr) = p # reads tr"
| "reads (Print line # tr) = reads tr"
| "reads (Spawn rq # tr) = reads tr"

text \<open>Lines printed, as against processes started and files read.\<close>

fun is_print :: "event \<Rightarrow> bool" where
  "is_print (Print line) = True"
| "is_print (Spawn rq) = False"
| "is_print (Read p) = False"

text \<open>What a run has added to the trace it started with.\<close>

definition events_since :: "'w st \<Rightarrow> 'w st \<Rightarrow> event list" where
  "events_since s s' = drop (length (snd s)) (snd s')"

text \<open>The second state continues the trace of the first.\<close>

definition ext :: "'w st \<Rightarrow> 'w st \<Rightarrow> bool" where
  "ext s s' = (\<exists>evs. snd s' = snd s @ evs)"

text \<open>
  The mark a call of \<open>execute\<close> leaves in the trace: the dry-run line when dry-run is
  set, the process it starts otherwise.
\<close>

definition exec_event :: "RuntimeConfig \<Rightarrow> cmd \<Rightarrow> string option \<Rightarrow> event" where
  "exec_event cfg c cwd =
     (if dry_run cfg then Print (''  [DRY] '' @ cmd_display c)
      else Spawn \<lparr>sp_cmd = prepare_command cfg c, sp_shell = is_windows cfg, sp_cwd = cwd\<rparr>)"

text \<open>
  The two kinds of probe, as the processes they start: \<open>c --version\<close> given to the shell, and
  \<open>[python, "-c", "import package"]\<close> without one.
\<close>

definition is_version_probe :: "spawn_req \<Rightarrow> bool" where
  "is_version_probe rq =
     (sp_shell rq \<and> sp_cwd rq = None \<and>
      (case sp_cmd rq of
         CmdStr t \<Rightarrow> 10 \<le> length t \<and> drop (length t - 10) t = '' --version''
       | CmdList xs \<Rightarrow> False))"

definition is_package_probe :: "spawn_req \<Rightarrow> bool" where
  "is_package_probe rq =
     (\<not> sp_shell rq \<and> sp_cwd rq = None \<and>
      (case sp_cmd rq of
         CmdStr t \<Rightarrow> False
       | CmdList xs \<Rightarrow> length xs = 3 \<and> xs ! 1 = ''-c'' \<and> take 7 (xs ! 2) = ''import ''))"

definition is_probe :: "spawn_req \<Rightarrow> bool" where
  "is_probe rq = (is_version_probe rq \<or> is_package_probe rq)"

text \<open>From the first state to the second the trace has grown, and by no process but probes.\<close>

definition probes_only :: "'w st \<Rightarrow> 'w st \<Rightarrow> bool" where
  "probes_only s s' = (ext s s' \<and> list_all is_probe (spawns (events_since s s')))"

subsection \<open>The selection of the package manager, as the specification words it\<close>

text \<open>Whether \<open>c --version\<close>, given to the shell, ends with status 0 in the surroundings \<open>w\<close>.\<close>

definition probe_ok :: "'w env \<Rightarrow> 'w \<Rightarrow> string \<Rightarrow> bool" where
  "probe_ok env w c =
     (case fst (subprocess_run env w (probe_req c)) of
        Completed out \<Rightarrow> True
      | CalledProcessError returncode stderr \<Rightarrow> False
      | FileNotFoundError \<Rightarrow> False)"

text \<open>Asking one of the three package managers for its version changes nothing.\<close>

definition probes_keep :: "'w env \<Rightarrow> 'w \<Rightarrow> bool" where
  "probes_keep env w =
     list_all (\<lambda>c. snd (subprocess_run env w (probe_req c)) = w) [''pnpm'', ''yarn'', ''npm'']"

text \<open>
  The decision order of the specification, first match wins, over the two questions it
  asks: does the path exist, does the probe succeed.
\<close>

definition select_node_package_manager ::
  "(string \<Rightarrow> bool) \<Rightarrow> (string \<Rightarrow> bool) \<Rightarrow> string option" where
  "select_node_package_manager exists probe =
     (if exists ''pnpm-lock.yaml'' \<and> probe ''pnpm'' then Some ''pnpm''
      else if exists ''yarn.lock'' \<and> probe ''yarn'' then Some ''yarn''
      else if exists ''package-lock.json'' \<and> probe ''npm'' then Some ''npm''
      else if probe ''npm'' then Some ''npm''
      else if probe ''pnpm'' then Some ''pnpm''
      else if probe ''yarn'' then Some ''yarn''
      else None)"

subsection \<open>The manifest of Flutter\<close>

text \<open>The manifest \<open>pubspec.yaml\<close> is there and its text contains \<open>build_runner:\<close>.\<close>

definition manifest_has_build_runner :: "'w env \<Rightarrow> 'w \<Rightarrow> bool" where
  "manifest_has_build_runner env w =
     (path_exists env w ''pubspec.yaml'' \<and>
      (case read_text env w ''pubspec.yaml'' of
         ReadText t \<Rightarrow> py_in_str ''build_runner:'' t
       | ReadOSError \<Rightarrow> False
       | ReadUnicodeDecodeError \<Rightarrow> False))"

subsection \<open>The results of the strategies of a run\<close>

text \<open>
  What each setup strategy that \<open>all\<close> draws from the generator has answered, in order:
  \<open>Inr\<close> what it returned, \<open>Inl\<close> what it raised.
\<close>

fun setup_results :: "'w env \<Rightarrow> RuntimeConfig \<Rightarrow> string list \<Rightarrow> 'w st \<Rightarrow> (exn + bool) list" where
  "setup_results env cfg [] s = []"
| "setup_results env cfg (project_type # rest) s =
     (case setup_methods env cfg project_type of
        None \<Rightarrow> setup_results env cfg rest s
      | Some f \<Rightarrow>
          (case f s of
             (Inl e, s1) \<Rightarrow> [Inl e]
           | (Inr ok, s1) \<Rightarrow> Inr ok # (if ok then setup_results env cfg rest s1 else [])))"

text \<open>The same for the formatting strategies that \<open>format_all\<close> calls.\<close>

definition format_results :: "'w env \<Rightarrow> RuntimeConfig \<Rightarrow> string list \<Rightarrow> 'w st \<Rightarrow> (exn + bool) list" where
  "format_results env cfg detected s =
     (case (if ''python'' \<in> set detected
            then (case format_python env cfg s of (ok1, s1) \<Rightarrow> ([Inr ok1], s1)) else ([], s)) of
        (r1, s1) \<Rightarrow>
          (case (if ''node'' \<in> set detected
                 then (case format_node env cfg s1 of (r, s2) \<Rightarrow> ([r], s2)) else ([], s1)) of
             (r2, s2) \<Rightarrow>
               if list_ex isl r2 then r1 @ r2
               else r1 @ r2 @ (if ''flutter'' \<in> set detected
                               then [Inr (fst (format_flutter env cfg s2))] else [])))"

text \<open>
  All the strategies of a run that starts the setup phase in the state \<open>s\<close>: formatting is
  reached unless a setup strategy raises.
\<close>

definition strategy_results :: "'w env \<Rightarrow> RuntimeConfig \<Rightarrow> string list \<Rightarrow> 'w st \<Rightarrow> (exn + bool) list" where
  "strategy_results env cfg detected s =
     (let rs = setup_results env cfg detected s in
      if list_ex isl rs then rs
      else rs @ format_results env cfg detected (snd (all_setups env cfg detected s)))"

text \<open>A strategy has succeeded when it has returned true.\<close>

definition succeeded :: "exn + bool \<Rightarrow> bool" where
  "succeeded r = (r = Inr True)"

subsection \<open>A sample Unix machine\<close>

text \<open>
  For evaluating the program on concrete inputs: the surroundings are the list of the
  paths that exist, each with what reading it as text gives. A command line given to the
  shell succeeds when it asks an installed tool for its version, and ends with status 127
  otherwise. Without the shell the first word of an argument list, or the whole of a
  single string, names the program: a name with a slash in it is a path and is found when
  it exists, any other name is found when it is that of an installed tool. Creating the
  virtual environment creates its directory, its interpreter and its installer.
\<close>

type_synonym files = "(string \<times> read_result) list"

definition sample_exists :: "files \<Rightarrow> string \<Rightarrow> bool" where
  "sample_exists w p = (p \<in> set (map fst w))"

definition sample_read :: "files \<Rightarrow> string \<Rightarrow> read_result" where
  "sample_read w p = (case map_of w p of Some r \<Rightarrow> r | None \<Rightarrow> ReadOSError)"

definition sample_found :: "string list \<Rightarrow> files \<Rightarrow> string \<Rightarrow> bool" where
  "sample_found tools w prog =
     (if CHR ''/'' \<in> set prog then sample_exists w prog else prog \<in> set tools)"

definition sample_run :: "string list \<Rightarrow> string \<Rightarrow> files \<Rightarrow> spawn_req \<Rightarrow> proc_result \<times> files" where
  "sample_run tools py w rq =
     (case sp_cmd rq of
        CmdStr t \<Rightarrow>
          if sp_shell rq then
            (if list_ex (\<lambda>tool. t = tool @ '' --version'') tools then (Completed [], w)
             else (CalledProcessError 127 ''sh: command not found'', w))
          else if sample_found tools w t then (Completed [], w)
          else (FileNotFoundError, w)
      | CmdList xs \<Rightarrow>
          (case xs of
             [] \<Rightarrow> (FileNotFoundError, w)
           | prog # args \<Rightarrow>
               if \<not> sample_found tools w prog then (FileNotFoundError, w)
               else if prog = py \<and> args = [''-m'', ''venv'', ''.venv''] then
                 (Completed [],
                  (''.venv'', ReadOSError) # (''.venv/bin/python'', ReadUnicodeDecodeError)
                    # (''.venv/bin/pip'', ReadText []) # w)
               else (Completed [], w)))"

text \<open>
  The tools of the sample machine write ASCII text, on which \<open>str.strip()\<close> removes these
  characters from both ends.
\<close>

definition ascii_space :: "char \<Rightarrow> bool" where
  "ascii_space c =
     (let n = (of_char c :: nat) in (9 \<le> n \<and> n \<le> 13) \<or> (28 \<le> n \<and> n \<le> 32))"

definition ascii_strip :: "string \<Rightarrow> string" where
  "ascii_strip s = rev (dropWhile ascii_space (rev (dropWhile ascii_space s)))"

text \<open>
  And \<open>repr\<close> of a string of ASCII characters: double quotes when the text has a single
  quote and no double quote, single quotes otherwise; the quote, the backslash and the
  control characters escaped.
\<close>

definition hex_digit :: "nat \<Rightarrow> char" where
  "hex_digit n = (if n < 10 then char_of (48 + n) else char_of (87 + n))"

definition repr_char :: "char \<Rightarrow> char \<Rightarrow> string" where
  "repr_char q c =
     (let n = (of_char c :: nat) in
      if c = q \<or> c = CHR 0x5C then [CHR 0x5C, c]
      else if c = CHR 0x0A then [CHR 0x5C, CHR ''n'']
      else if c = CHR 0x0D then [CHR 0x5C, CHR ''r'']
      else if c = CHR 0x09 then [CHR 0x5C, CHR ''t'']
      else if n < 32 \<or> n = 127 then [CHR 0x5C, CHR ''x'', hex_digit (n div 16), hex_digit (n mod 16)]
      else [c])"

definition ascii_repr :: "string \<Rightarrow> string" where
  "ascii_repr s =
     (let q = (if CHR 0x27 \<in> set s \<and> CHR 0x22 \<notin> set s then CHR 0x22 else CHR 0x27)
      in q # concat (map (repr_char q) s) @ [q])"

definition sample_loads :: "string \<Rightarrow> json option" where
  "sample_loads t =
     (if t = ''[]'' then Some (JArray [])
      else if t = ''{}'' then Some (JObject [])
      else if t = ''null'' then Some JNull
      else None)"

definition sample_env :: "string list \<Rightarrow> files env" where
  "sample_env tools =
     \<lparr>os_nt = False, sys_executable = ''python3'', path_exists = sample_exists,
      read_text = sample_read, subprocess_run = sample_run tools ''python3'',
      json_loads = sample_loads, str_strip = ascii_strip, str_repr = ascii_repr\<rparr>"

definition plain :: RuntimeConfig where
  "plain = \<lparr>dry_run = False, verbose = False, is_windows = False\<rparr>"

definition dry :: RuntimeConfig where
  "dry = \<lparr>dry_run = True, verbose = False, is_windows = False\<rparr>"

subsection \<open>Sample directories\<close>

text \<open>A Node project with the lock file of npm.\<close>

definition node_project :: files where
  "node_project = [(''package.json'', ReadText ''{}''), (''package-lock.json'', ReadText ''{}'')]"

text \<open>A Python project, before and after its virtual environment is created.\<close>

definition python_project :: files where
  "python_project = [(''requirements.txt'', ReadText ''ruff'')]"

definition python_project_venv :: files where
  "python_project_venv =
     [(''.venv'', ReadOSError), (''.venv/bin/python'', ReadUnicodeDecodeError),
      (''.venv/bin/pip'', ReadText []), (''requirements.txt'', ReadText ''ruff'')]"

text \<open>A Flutter project that declares the code generator.\<close>

definition flutter_project :: files where
  "flutter_project = [(''pubspec.yaml'', ReadText ''dev_dependencies: {build_runner: any}'')]"

text \<open>A directory with a Node project and a Rust project.\<close>

definition node_rust_project :: files where
  "node_rust_project = [(''package.json'', ReadText ''{}''), (''Cargo.toml'', ReadText [])]"

text \<open>
  Manifests that are there but are not what they should be: a \<open>package.json\<close> whose bytes
  are not text, one whose JSON is a list and not an object, and a \<open>pubspec.yaml\<close> whose bytes
  are not text.
\<close>

definition binary_package_json :: files where
  "binary_package_json = [(''package.json'', ReadUnicodeDecodeError)]"

definition list_package_json :: files where
  "list_package_json = [(''package.json'', ReadText ''[]'')]"

definition binary_pubspec :: files where
  "binary_pubspec = [(''pubspec.yaml'', ReadUnicodeDecodeError)]"

subsection \<open>String commands without a shell\<close>



section \<open>Properties\<close>

subsection \<open>How the trace grows\<close>

lemma print_trace [simp]: "snd (print line s) = snd s @ [Print line]"
  by (simp add: print_def)

lemma print_world [simp]: "fst (print line s) = fst s"
  by (simp add: print_def)

lemma run_trace [simp]: "snd (snd (run env rq s)) = snd s @ [Spawn rq]"
  by (simp add: run_def split: prod.splits)

lemma spawns_append [simp]: "spawns (xs @ ys) = spawns xs @ spawns ys"
  by (induction xs rule: spawns.induct) simp_all

lemma reads_append [simp]: "reads (xs @ ys) = reads xs @ reads ys"
  by (induction xs rule: reads.induct) simp_all

subsection \<open>Dry-run\<close>

text \<open>
  C3. For every command, a string or a list, and every working directory: when dry-run
  is set, \<open>execute\<close> returns true, leaves the surroundings as they are, and adds to the
  trace the one line that shows the command and nothing else, so it starts no process.
\<close>

theorem execute_dry_run:
  assumes "dry_run cfg"
  shows "execute env cfg c cwd s = (True, (fst s, snd s @ [Print (''  [DRY] '' @ cmd_display c)]))
         \<and> spawns (events_since s (snd (execute env cfg c cwd s))) = []"
  using assms by (simp add: execute_def print_def events_since_def)

theorem execute_dry_run_witness:
  "dry_run dry
   \<and> execute (sample_env []) dry (CmdList [''cargo'', ''fetch'']) (Some ''sub'') ([], [])
       = (True, ([], [Print ''  [DRY] cargo fetch'']))
   \<and> execute (sample_env []) dry (CmdStr ''npm ci'') None ([], []) = (True, ([], [Print ''  [DRY] npm ci'']))"
proof -
  have h: "dry_run dry" by (simp add: dry_def)
  show ?thesis
    using h execute_dry_run [OF h, of "sample_env []" "CmdList [''cargo'', ''fetch'']" "Some ''sub''" "([], [])"]
      execute_dry_run [OF h, of "sample_env []" "CmdStr ''npm ci''" None "([], [])"]
    by (simp add: cmd_display_def)
qed

subsection \<open>The package manager of a Node project\<close>

lemmas sample_defs =
  sample_env_def sample_run_def sample_exists_def sample_read_def sample_found_def
  sample_loads_def

lemma has_command_eq:
  "has_command env c s =
     (probe_ok env (fst s) c,
      (snd (subprocess_run env (fst s) (probe_req c)), snd s @ [Spawn (probe_req c)]))"
  by (simp add: has_command_def probe_ok_def run_def split: prod.splits proc_result.splits)

lemma has_command_keep:
  "snd (subprocess_run env w (probe_req c)) = w \<Longrightarrow>
   has_command env c (w, tr) = (probe_ok env w c, (w, tr @ [Spawn (probe_req c)]))"
  by (simp add: has_command_eq)

text \<open>
  C5. Where the version probes of the three package managers leave the surroundings as
  they are, \<open>get_package_manager\<close> answers what the decision order of the specification
  answers: pnpm if \<open>pnpm-lock.yaml\<close> exists and the pnpm probe succeeds, else yarn if
  \<open>yarn.lock\<close> exists and the yarn probe succeeds, else npm if \<open>package-lock.json\<close> exists
  and the npm probe succeeds, else the first of npm, pnpm, yarn whose probe succeeds, else
  none; and it leaves the surroundings unchanged. In particular (and whatever the probes
  do) with \<open>pnpm-lock.yaml\<close> and a working pnpm probe the answer is pnpm, whether or not
  \<open>package-lock.json\<close> exists.
\<close>

theorem get_package_manager_order:
  "(probes_keep env w \<longrightarrow>
      fst (get_package_manager env (w, tr))
        = select_node_package_manager (path_exists env w) (probe_ok env w)
      \<and> fst (snd (get_package_manager env (w, tr))) = w)
   \<and> (path_exists env w ''pnpm-lock.yaml'' \<and> probe_ok env w ''pnpm''
        \<longrightarrow> fst (get_package_manager env (w, tr)) = Some ''pnpm'')"
proof (intro conjI impI)
  assume k: "probes_keep env w"
  then have k3: "snd (subprocess_run env w (probe_req ''pnpm'')) = w"
    "snd (subprocess_run env w (probe_req ''yarn'')) = w"
    "snd (subprocess_run env w (probe_req ''npm'')) = w"
    by (simp_all add: probes_keep_def)
  show "fst (get_package_manager env (w, tr))
        = select_node_package_manager (path_exists env w) (probe_ok env w)"
    by (simp add: get_package_manager_def lock_files_def has_command_keep k3
        select_node_package_manager_def)
  show "fst (snd (get_package_manager env (w, tr))) = w"
    by (simp add: get_package_manager_def lock_files_def has_command_keep k3)
next
  assume "path_exists env w ''pnpm-lock.yaml'' \<and> probe_ok env w ''pnpm''"
  then show "fst (get_package_manager env (w, tr)) = Some ''pnpm''"
    by (simp add: get_package_manager_def lock_files_def has_command_eq)
qed

theorem get_package_manager_order_witness:
  "probes_keep (sample_env [''yarn'', ''npm''])
     [(''yarn.lock'', ReadText []), (''package-lock.json'', ReadText [])]
   \<and> fst (get_package_manager (sample_env [''yarn'', ''npm''])
             ([(''yarn.lock'', ReadText []), (''package-lock.json'', ReadText [])], []))
       = Some ''yarn''
   \<and> path_exists (sample_env [''pnpm'', ''npm''])
        [(''pnpm-lock.yaml'', ReadText []), (''package-lock.json'', ReadText [])] ''pnpm-lock.yaml''
   \<and> probe_ok (sample_env [''pnpm'', ''npm''])
        [(''pnpm-lock.yaml'', ReadText []), (''package-lock.json'', ReadText [])] ''pnpm''
   \<and> fst (get_package_manager (sample_env [''pnpm'', ''npm''])
             ([(''pnpm-lock.yaml'', ReadText []), (''package-lock.json'', ReadText [])], []))
       = Some ''pnpm''"
  using get_package_manager_order [of "sample_env [''yarn'', ''npm'']"
      "[(''yarn.lock'', ReadText []), (''package-lock.json'', ReadText [])]" "[]"]
    get_package_manager_order [of "sample_env [''pnpm'', ''npm'']"
      "[(''pnpm-lock.yaml'', ReadText []), (''package-lock.json'', ReadText [])]" "[]"]
  by (simp add: probes_keep_def probe_ok_def probe_req_def sample_defs
      select_node_package_manager_def)

subsection \<open>The trace of \<open>execute\<close> and of the probes\<close>

lemma ext_refl [simp]: "ext s s"
  by (simp add: ext_def)

lemma ext_trans: "ext s s1 \<Longrightarrow> ext s1 s2 \<Longrightarrow> ext s s2"
  by (auto simp: ext_def)

lemma ext_print [simp]: "ext s (print line s)"
  by (simp add: ext_def)

lemma ext_print' : "ext s s1 \<Longrightarrow> ext s (print line s1)"
  by (auto simp: ext_def)

lemma since_self [simp]: "events_since s s = []"
  by (simp add: events_since_def)

lemma since_append: "ext s s1 \<Longrightarrow> ext s1 s2 \<Longrightarrow> events_since s s2 = events_since s s1 @ events_since s1 s2"
  by (auto simp: ext_def events_since_def)

lemma since_print: "ext s s1 \<Longrightarrow> events_since s (print line s1) = events_since s s1 @ [Print line]"
  by (auto simp: ext_def events_since_def)

lemma since_print0 [simp]: "events_since s (print line s) = [Print line]"
  by (simp add: events_since_def)

lemma prints_only: "list_all is_print xs \<Longrightarrow> \<not> is_print e \<Longrightarrow> e \<notin> set xs"
  by (auto simp: list_all_iff)

lemma handle_error_since:
  "\<exists>post. snd (handle_error env cfg c rc err s) = snd s @ post \<and> list_all is_print post"
  by (simp add: handle_error_def Let_def)

lemma execute_ext [simp]: "ext s (snd (execute env cfg c cwd s))"
  by (auto simp: ext_def execute_def handle_error_def Let_def run_def split: prod.splits proc_result.splits)

lemma execute_since:
  "\<exists>pre post. events_since s (snd (execute env cfg c cwd s)) = pre @ exec_event cfg c cwd # post
      \<and> list_all is_print pre \<and> list_all is_print post \<and> (dry_run cfg \<longrightarrow> pre = [] \<and> post = [])"
proof (cases "dry_run cfg")
  case True
  then show ?thesis by (simp add: execute_def exec_event_def events_since_def)
next
  case False
  let ?pre = "if verbose cfg then [Print (''  Running: '' @ cmd_display c)] else []"
  have "\<exists>post. events_since s (snd (execute env cfg c cwd s)) = ?pre @ exec_event cfg c cwd # post
      \<and> list_all is_print post"
    using False
    by (auto simp: events_since_def execute_def exec_event_def handle_error_def Let_def run_def
        split: prod.splits proc_result.splits)
  then obtain post where "events_since s (snd (execute env cfg c cwd s)) = ?pre @ exec_event cfg c cwd # post"
    "list_all is_print post" by blast
  moreover have "list_all is_print ?pre" by simp
  ultimately show ?thesis using False by blast
qed

lemma exec_event_not_print: "\<not> dry_run cfg \<Longrightarrow> \<not> is_print (exec_event cfg c cwd)"
  by (simp add: exec_event_def)

lemma execute_mark: "exec_event cfg c cwd \<in> set (events_since s (snd (execute env cfg c cwd s)))"
  using execute_since [of s env cfg c cwd] by auto

lemma execute_other:
  "exec_event cfg c' cwd' \<in> set (events_since s (snd (execute env cfg c cwd s)))
     \<longleftrightarrow> exec_event cfg c' cwd' = exec_event cfg c cwd"
proof -
  obtain pre post where d: "events_since s (snd (execute env cfg c cwd s)) = pre @ exec_event cfg c cwd # post"
    "list_all is_print pre" "list_all is_print post" "dry_run cfg \<longrightarrow> pre = [] \<and> post = []"
    using execute_since by blast
  show ?thesis
  proof (cases "dry_run cfg")
    case True
    with d show ?thesis by simp
  next
    case False
    then have "exec_event cfg c' cwd' \<notin> set pre" "exec_event cfg c' cwd' \<notin> set post"
      using d prints_only exec_event_not_print by blast+
    with d show ?thesis by auto
  qed
qed

lemma execute_count:
  "count_list (events_since s (snd (execute env cfg c cwd s))) (exec_event cfg c cwd) = 1"
proof -
  obtain pre post where d: "events_since s (snd (execute env cfg c cwd s)) = pre @ exec_event cfg c cwd # post"
    "list_all is_print pre" "list_all is_print post" "dry_run cfg \<longrightarrow> pre = [] \<and> post = []"
    using execute_since by blast
  show ?thesis
  proof (cases "dry_run cfg")
    case True
    with d show ?thesis by simp
  next
    case False
    then have "exec_event cfg c cwd \<notin> set pre" "exec_event cfg c cwd \<notin> set post"
      using d prints_only exec_event_not_print by blast+
    with d show ?thesis by (simp add: count_list_0_iff)
  qed
qed

lemma execute_spawns:
  "spawns (events_since s (snd (execute env cfg c cwd s))) =
     (if dry_run cfg then []
      else [\<lparr>sp_cmd = prepare_command cfg c, sp_shell = is_windows cfg, sp_cwd = cwd\<rparr>])"
  by (auto simp: events_since_def execute_def handle_error_def Let_def run_def split: prod.splits proc_result.splits)

lemma execute_reads: "reads (events_since s (snd (execute env cfg c cwd s))) = []"
  by (auto simp: events_since_def execute_def handle_error_def Let_def run_def split: prod.splits proc_result.splits)

lemma has_command_ext [simp]: "ext s (snd (has_command env c s))"
  by (simp add: has_command_eq ext_def)

lemma has_command_since [simp]: "events_since s (snd (has_command env c s)) = [Spawn (probe_req c)]"
  by (simp add: has_command_eq events_since_def)

subsection \<open>When the program is not found\<close>


subsection \<open>Node setup\<close>

lemma lock_file_loop_probes:
  "\<exists>cs. snd (snd (lock_file_loop env xs s)) = snd s @ map (\<lambda>c. Spawn (probe_req c)) cs"
proof (induction xs arbitrary: s)
  case Nil
  then show ?case by simp
next
  case (Cons x xs)
  obtain lock_file pm where x: "x = (lock_file, pm)" by (cases x)
  let ?s1 = "snd (has_command env pm s)"
  have t1: "snd ?s1 = snd s @ [Spawn (probe_req pm)]" by (simp add: has_command_eq)
  obtain cs where cs: "snd (snd (lock_file_loop env xs ?s1)) = snd ?s1 @ map (\<lambda>c. Spawn (probe_req c)) cs"
    using Cons.IH by blast
  obtain cs0 where cs0: "snd (snd (lock_file_loop env xs s)) = snd s @ map (\<lambda>c. Spawn (probe_req c)) cs0"
    using Cons.IH by blast
  have a: "snd (snd (lock_file_loop env xs ?s1)) = snd s @ map (\<lambda>c. Spawn (probe_req c)) (pm # cs)"
    using cs t1 by simp
  have b: "snd ?s1 = snd s @ map (\<lambda>c. Spawn (probe_req c)) [pm]" using t1 by simp
  show ?case
    unfolding x lock_file_loop.simps
    using a b cs0 by (auto simp del: map_append list.map split: prod.splits)
qed

lemma next_available_probes:
  "\<exists>cs. snd (snd (next_available env xs s)) = snd s @ map (\<lambda>c. Spawn (probe_req c)) cs"
proof (induction xs arbitrary: s)
  case Nil
  then show ?case by simp
next
  case (Cons pm xs)
  let ?s1 = "snd (has_command env pm s)"
  have t1: "snd ?s1 = snd s @ [Spawn (probe_req pm)]" by (simp add: has_command_eq)
  obtain cs where cs: "snd (snd (next_available env xs ?s1)) = snd ?s1 @ map (\<lambda>c. Spawn (probe_req c)) cs"
    using Cons.IH by blast
  have a: "snd (snd (next_available env xs ?s1)) = snd s @ map (\<lambda>c. Spawn (probe_req c)) (pm # cs)"
    using cs t1 by simp
  have b: "snd ?s1 = snd s @ map (\<lambda>c. Spawn (probe_req c)) [pm]" using t1 by simp
  show ?case
    unfolding next_available.simps
    using a b by (auto simp del: map_append list.map split: prod.splits)
qed

lemma get_package_manager_probes:
  "\<exists>cs. snd (snd (get_package_manager env s)) = snd s @ map (\<lambda>c. Spawn (probe_req c)) cs"
proof -
  let ?s1 = "snd (lock_file_loop env lock_files s)"
  obtain cs1 where c1: "snd ?s1 = snd s @ map (\<lambda>c. Spawn (probe_req c)) cs1"
    using lock_file_loop_probes by blast
  obtain cs2 where c2: "snd (snd (next_available env [''npm'', ''pnpm'', ''yarn''] ?s1))
      = snd ?s1 @ map (\<lambda>c. Spawn (probe_req c)) cs2"
    using next_available_probes by blast
  have c3: "snd (snd (next_available env [''npm'', ''pnpm'', ''yarn''] ?s1))
      = snd s @ map (\<lambda>c. Spawn (probe_req c)) (cs1 @ cs2)"
    using c1 c2 by simp
  show ?thesis
    unfolding get_package_manager_def
    using c1 c3 by (auto simp del: map_append split: prod.splits option.splits)
qed


lemma exec_event_eq:
  "exec_event cfg c cwd = exec_event cfg c' cwd' \<longleftrightarrow>
     (if dry_run cfg then cmd_display c = cmd_display c'
      else prepare_command cfg c = prepare_command cfg c' \<and> cwd = cwd')"
  by (simp add: exec_event_def)

lemma npm_ci_not_install: "''npm ci'' \<noteq> pm @ '' install''"
proof
  assume "''npm ci'' = pm @ '' install''"
  then have "last ''npm ci'' = last (pm @ '' install'')" by simp
  then show False by simp
qed

lemma not_version_probe:
  assumes "last t \<noteq> CHR ''n''"
  shows "exec_event cfg (CmdStr t) None \<noteq> Spawn (probe_req c)"
proof
  assume "exec_event cfg (CmdStr t) None = Spawn (probe_req c)"
  then have "t = c @ '' --version''"
    by (simp add: exec_event_def probe_req_def prepare_command_def split: if_splits)
  then have "last t = last (c @ '' --version'')" by simp
  with assms show False by simp
qed

text \<open>
  C2, as amended. Let the selection have chosen \<open>pm\<close>. When \<open>pm\<close> is npm and
  \<open>package-lock.json\<close> exists, \<open>npm ci\<close> is attempted first; the generic install is run
  after it if and only if that attempt returned false, and a successful attempt is the
  result of the strategy. Otherwise \<open>npm ci\<close> is not attempted and the generic install of
  \<open>pm\<close> is run directly.
\<close>

theorem setup_node_fallback:
  assumes sel: "get_package_manager env (print (sym_package @ '' Node.js setup...'') s) = (Some pm, s1)"
    and ci: "execute env cfg (CmdStr ''npm ci'') None (print (''  Using: '' @ pm) s1) = (ok, s3)"
  shows "(pm = ''npm'' \<and> path_exists env (fst s1) ''package-lock.json'' \<longrightarrow>
            exec_event cfg (CmdStr ''npm ci'') None \<in> set (events_since s (snd (setup_node env cfg s)))
            \<and> (exec_event cfg (CmdStr ''npm install'') None
                  \<in> set (events_since s (snd (setup_node env cfg s))) \<longleftrightarrow> \<not> ok)
            \<and> setup_node env cfg s
                = (if ok then (True, s3) else execute env cfg (CmdStr ''npm install'') None s3))
         \<and> (\<not> (pm = ''npm'' \<and> path_exists env (fst s1) ''package-lock.json'') \<longrightarrow>
              exec_event cfg (CmdStr ''npm ci'') None \<notin> set (events_since s (snd (setup_node env cfg s)))
              \<and> exec_event cfg (CmdStr (pm @ '' install'')) None
                  \<in> set (events_since s (snd (setup_node env cfg s)))
              \<and> setup_node env cfg s
                  = execute env cfg (CmdStr (pm @ '' install'')) None (print (''  Using: '' @ pm) s1))"
proof -
  let ?s0 = "print (sym_package @ '' Node.js setup...'') s"
  let ?s2 = "print (''  Using: '' @ pm) s1"
  let ?ci = "exec_event cfg (CmdStr ''npm ci'') None"
  obtain cs where cs: "snd s1 = snd ?s0 @ map (\<lambda>c. Spawn (probe_req c)) cs"
    using get_package_manager_probes [of env ?s0] sel by auto
  have e01: "ext s s1" using cs by (simp add: ext_def)
  have e02: "ext s ?s2" using e01 by (rule ext_print')
  have head: "events_since s ?s2
      = Print (sym_package @ '' Node.js setup...'') # map (\<lambda>c. Spawn (probe_req c)) cs @ [Print (''  Using: '' @ pm)]"
    using cs by (simp add: events_since_def)
  have pr: "exec_event cfg (CmdStr t) None \<noteq> Print (sym_package @ '' Node.js setup...'')"
    "exec_event cfg (CmdStr t) None \<noteq> Print (''  Using: '' @ pm)" for t
    by (simp_all add: exec_event_def sym_package_def)
  have "?ci \<notin> set (Print (sym_package @ '' Node.js setup...'')
            # map (\<lambda>c. Spawn (probe_req c)) cs @ [Print (''  Using: '' @ pm)])"
    using not_version_probe [of "''npm ci''" cfg] pr [of "''npm ci''"] by auto
  then have ci_head: "?ci \<notin> set (events_since s ?s2)"
    unfolding head .
  have "exec_event cfg (CmdStr (p @ '' install'')) None
          \<notin> set (Print (sym_package @ '' Node.js setup...'')
            # map (\<lambda>c. Spawn (probe_req c)) cs @ [Print (''  Using: '' @ pm)])" for p
    using not_version_probe [of "p @ '' install''" cfg] pr [of "p @ '' install''"] by auto
  then have inst_head: "exec_event cfg (CmdStr (p @ '' install'')) None \<notin> set (events_since s ?s2)" for p
    unfolding head .
  have s3: "s3 = snd (execute env cfg (CmdStr ''npm ci'') None ?s2)" using ci by simp
  have e23: "ext ?s2 s3" unfolding s3 by simp
  show ?thesis
  proof (intro conjI impI)
    assume a: "pm = ''npm'' \<and> path_exists env (fst s1) ''package-lock.json''"
    show eq: "setup_node env cfg s
                = (if ok then (True, s3) else execute env cfg (CmdStr ''npm install'') None s3)"
      using a sel ci by (simp add: setup_node_def)
    have upto3: "events_since s s3 = events_since s ?s2 @ events_since ?s2 s3"
      using since_append [OF e02 e23] .
    have ci3: "?ci \<in> set (events_since ?s2 s3)" unfolding s3 by (rule execute_mark)
    have inst3: "exec_event cfg (CmdStr ''npm install'') None \<notin> set (events_since ?s2 s3)"
      unfolding s3 by (simp add: execute_other exec_event_eq prepare_command_def cmd_display_def)
    let ?s4 = "snd (execute env cfg (CmdStr ''npm install'') None s3)"
    have upto4: "events_since s ?s4 = events_since s s3 @ events_since s3 ?s4"
      by (rule since_append [OF ext_trans [OF e02 e23] execute_ext])
    show "?ci \<in> set (events_since s (snd (setup_node env cfg s)))"
      using eq upto3 upto4 ci3 by (cases ok) simp_all
    show "exec_event cfg (CmdStr ''npm install'') None
            \<in> set (events_since s (snd (setup_node env cfg s))) \<longleftrightarrow> \<not> ok"
    proof (cases ok)
      case True
      then show ?thesis using eq upto3 inst3 inst_head [of "''npm''"] by simp
    next
      case False
      then show ?thesis using eq upto4 execute_mark [of cfg "CmdStr ''npm install''" None s3 env] by simp
    qed
  next
    assume a: "\<not> (pm = ''npm'' \<and> path_exists env (fst s1) ''package-lock.json'')"
    let ?s4 = "snd (execute env cfg (CmdStr (pm @ '' install'')) None ?s2)"
    show eq: "setup_node env cfg s = execute env cfg (CmdStr (pm @ '' install'')) None ?s2"
      using a sel by (auto simp: setup_node_def)
    have upto4: "events_since s ?s4 = events_since s ?s2 @ events_since ?s2 ?s4"
      by (rule since_append [OF e02 execute_ext])
    have "?ci \<notin> set (events_since ?s2 ?s4)"
      using npm_ci_not_install [of pm]
      by (simp add: execute_other exec_event_eq prepare_command_def cmd_display_def)
    then show "?ci \<notin> set (events_since s (snd (setup_node env cfg s)))"
      using eq upto4 ci_head by simp
    show "exec_event cfg (CmdStr (pm @ '' install'')) None
            \<in> set (events_since s (snd (setup_node env cfg s)))"
      using eq upto4 execute_mark [of cfg "CmdStr (pm @ '' install'')" None ?s2 env] by simp
  qed
qed


lemmas run_defs =
  execute_def run_def print_def handle_error_def prepare_command_def cmd_display_def cmd_str_def
  has_command_def probe_req_def get_package_manager_def lock_files_def

theorem setup_node_fallback_witness:
  "get_package_manager (sample_env [''npm'']) (print (sym_package @ '' Node.js setup...'') (node_project, []))
     = (Some ''npm'', (node_project, [Print (sym_package @ '' Node.js setup...''), Spawn (probe_req ''npm'')]))
   \<and> execute (sample_env [''npm'']) plain (CmdStr ''npm ci'') None
        (print ''  Using: npm'' (node_project, [Print (sym_package @ '' Node.js setup...''), Spawn (probe_req ''npm'')]))
       = (False, (node_project,
            [Print (sym_package @ '' Node.js setup...''), Spawn (probe_req ''npm''), Print ''  Using: npm'',
             Spawn \<lparr>sp_cmd = CmdStr ''npm ci'', sp_shell = False, sp_cwd = None\<rparr>,
             Print (''  '' @ sym_cross @ '' Command not found: npm ci'')]))
   \<and> path_exists (sample_env [''npm'']) node_project ''package-lock.json''
   \<and> exec_event plain (CmdStr ''npm ci'') None
        \<in> set (events_since (node_project, []) (snd (setup_node (sample_env [''npm'']) plain (node_project, []))))
   \<and> exec_event plain (CmdStr ''npm install'') None
        \<in> set (events_since (node_project, []) (snd (setup_node (sample_env [''npm'']) plain (node_project, []))))"
proof -
  let ?s1 = "(node_project, [Print (sym_package @ '' Node.js setup...''), Spawn (probe_req ''npm'')])"
  let ?s3 = "(node_project,
            [Print (sym_package @ '' Node.js setup...''), Spawn (probe_req ''npm''), Print ''  Using: npm'',
             Spawn \<lparr>sp_cmd = CmdStr ''npm ci'', sp_shell = False, sp_cwd = None\<rparr>,
             Print (''  '' @ sym_cross @ '' Command not found: npm ci'')])"
  have sel: "get_package_manager (sample_env [''npm'']) (print (sym_package @ '' Node.js setup...'') (node_project, []))
     = (Some ''npm'', ?s1)"
    by (simp add: run_defs sample_defs node_project_def)
  have ci: "execute (sample_env [''npm'']) plain (CmdStr ''npm ci'') None (print (''  Using: '' @ ''npm'') ?s1)
     = (False, ?s3)"
    by (simp add: run_defs sample_defs node_project_def plain_def)
  have ex: "path_exists (sample_env [''npm'']) node_project ''package-lock.json''"
    by (simp add: sample_defs node_project_def)
  have r: "exec_event plain (CmdStr ''npm ci'') None
        \<in> set (events_since (node_project, []) (snd (setup_node (sample_env [''npm'']) plain (node_project, []))))"
    "exec_event plain (CmdStr ''npm install'') None
        \<in> set (events_since (node_project, []) (snd (setup_node (sample_env [''npm'']) plain (node_project, []))))"
  proof -
    have pre: "''npm'' = ''npm''
        \<and> path_exists (sample_env [''npm'']) (fst ?s1) ''package-lock.json''"
      using ex by simp
    note all = mp [OF setup_node_fallback [OF sel ci, THEN conjunct1] pre]
    show "exec_event plain (CmdStr ''npm ci'') None
        \<in> set (events_since (node_project, []) (snd (setup_node (sample_env [''npm'']) plain (node_project, []))))"
      using all [THEN conjunct1] .
    show "exec_event plain (CmdStr ''npm install'') None
        \<in> set (events_since (node_project, []) (snd (setup_node (sample_env [''npm'']) plain (node_project, []))))"
      using all [THEN conjunct2, THEN conjunct1] by simp
  qed
  show ?thesis
    using sel ci ex r by simp
qed

text \<open>
  C2 as stated fails: on the sample machine with npm installed and both \<open>package.json\<close> and
  \<open>package-lock.json\<close> present, npm is selected, \<open>npm ci\<close> is attempted (and is not found, being
  one string without a shell), and the generic \<open>npm install\<close> is run as well.
\<close>

theorem setup_node_runs_both:
  "fst (get_package_manager (sample_env [''npm'']) (print (sym_package @ '' Node.js setup...'') (node_project, [])))
     = Some ''npm''
   \<and> path_exists (sample_env [''npm'']) node_project ''package-lock.json''
   \<and> spawns (snd (snd (setup_node (sample_env [''npm'']) plain (node_project, []))))
       = [probe_req ''npm'',
          \<lparr>sp_cmd = CmdStr ''npm ci'', sp_shell = False, sp_cwd = None\<rparr>,
          \<lparr>sp_cmd = CmdStr ''npm install'', sp_shell = False, sp_cwd = None\<rparr>]"
  by (simp add: setup_node_def run_defs sample_defs node_project_def plain_def)

subsection \<open>Python setup and the virtual environment\<close>

lemma since_after_print:
  "ext (print line s) s' \<Longrightarrow> events_since s s' = Print line # events_since (print line s) s'"
  using since_append [where s = s and ?s1.0 = "print line s" and ?s2.0 = s'] by simp

lemma execute_print_since:
  "events_since s (snd (execute env cfg c cwd (print line s)))
     = Print line # events_since (print line s) (snd (execute env cfg c cwd (print line s)))"
  by (rule since_after_print) simp

lemma create_not_install:
  assumes "last y \<noteq> CHR ''v''" and "y \<noteq> []"
  shows "exec_event cfg (venv_create_cmd env) None \<noteq> exec_event cfg (CmdList [p, ''install'', x, y]) None"
proof
  assume e: "exec_event cfg (venv_create_cmd env) None = exec_event cfg (CmdList [p, ''install'', x, y]) None"
  have "cmd_display (venv_create_cmd env) \<noteq> cmd_display (CmdList [p, ''install'', x, y])"
  proof
    assume "cmd_display (venv_create_cmd env) = cmd_display (CmdList [p, ''install'', x, y])"
    then have "last (cmd_display (venv_create_cmd env)) = last (cmd_display (CmdList [p, ''install'', x, y]))"
      by simp
    then show False using assms by (simp add: cmd_display_def venv_create_cmd_def)
  qed
  then show False
    using e by (auto simp: exec_event_eq prepare_command_def venv_create_cmd_def cmd_display_def split: if_splits)
qed

lemma install_python_deps_ext [simp]: "ext s (snd (install_python_deps env cfg p s))"
  by (auto simp: install_python_deps_def intro: ext_trans [OF ext_print execute_ext])

lemma install_python_deps_no_create:
  "exec_event cfg (venv_create_cmd env) None \<notin> set (events_since s (snd (install_python_deps env cfg p s)))"
proof -
  have pr: "exec_event cfg (venv_create_cmd env) None \<noteq> Print ''  Installing requirements.txt...''"
    "exec_event cfg (venv_create_cmd env) None \<noteq> Print ''  Installing pyproject.toml...''"
    by (simp_all add: exec_event_def)
  show ?thesis
    using pr create_not_install [of "''requirements.txt''" cfg env p "''-r''"]
      create_not_install [of "''.''" cfg env p "''-e''"]
    by (auto simp: install_python_deps_def execute_print_since execute_other)
qed

lemma setup_python_ext [simp]: "ext s (snd (setup_python env cfg s))"
proof -
  let ?s1 = "print (sym_snake @ '' Python setup...'') s"
  let ?s2 = "snd (execute env cfg (venv_create_cmd env) None (print ''  Creating virtual environment...'' ?s1))"
  have a: "ext s ?s1" by simp
  have b: "ext s ?s2" by (rule ext_trans [OF a ext_trans [OF ext_print execute_ext]])
  show ?thesis
    using ext_trans [OF a install_python_deps_ext] ext_trans [OF b install_python_deps_ext] b
    by (simp add: setup_python_def Let_def case_prod_beta)
qed


lemma setup_python_venv_present:
  assumes "path_exists env (fst s) ''.venv''"
  shows "exec_event cfg (venv_create_cmd env) None \<notin> set (events_since s (snd (setup_python env cfg s)))"
proof -
  let ?s1 = "print (sym_snake @ '' Python setup...'') s"
  let ?p = "path_join env ''.venv'' (venv_pip (venv_paths cfg))"
  have eq: "setup_python env cfg s = install_python_deps env cfg ?p ?s1"
    using assms by (simp add: setup_python_def Let_def)
  have "events_since s (snd (install_python_deps env cfg ?p ?s1))
      = Print (sym_snake @ '' Python setup...'') # events_since ?s1 (snd (install_python_deps env cfg ?p ?s1))"
    by (rule since_after_print) simp
  moreover have "exec_event cfg (venv_create_cmd env) None \<noteq> Print (sym_snake @ '' Python setup...'')"
    by (simp add: exec_event_def sym_snake_def)
  ultimately show ?thesis
    using install_python_deps_no_create [of cfg env ?s1 ?p] by (simp add: eq)
qed

lemma setup_python_venv_absent:
  assumes "\<not> path_exists env (fst s) ''.venv''"
  shows "count_list (events_since s (snd (setup_python env cfg s))) (exec_event cfg (venv_create_cmd env) None) = 1"
proof -
  let ?s1 = "print (sym_snake @ '' Python setup...'') s"
  let ?s1' = "print ''  Creating virtual environment...'' ?s1"
  let ?p = "path_join env ''.venv'' (venv_pip (venv_paths cfg))"
  let ?x = "execute env cfg (venv_create_cmd env) None ?s1'"
  let ?s2 = "snd ?x"
  let ?e = "exec_event cfg (venv_create_cmd env) None"
  have pr: "?e \<noteq> Print (sym_snake @ '' Python setup...'')"
    "?e \<noteq> Print ''  Creating virtual environment...''"
    by (simp_all add: exec_event_def sym_snake_def)
  have e1: "ext s ?s1'" by (simp add: ext_print')
  have e2: "ext s ?s2" by (rule ext_trans [OF e1 execute_ext])
  have h: "events_since s ?s1' = [Print (sym_snake @ '' Python setup...''), Print ''  Creating virtual environment...'']"
    by (simp add: events_since_def)
  have upto2: "events_since s ?s2 = events_since s ?s1' @ events_since ?s1' ?s2"
    by (rule since_append [OF e1 execute_ext])
  have c2: "count_list (events_since s ?s2) ?e = 1"
    using pr by (simp add: upto2 h execute_count)
  show ?thesis
  proof (cases "fst ?x")
    case False
    then have "setup_python env cfg s = (False, ?s2)"
      using assms by (simp add: setup_python_def Let_def case_prod_beta)
    then show ?thesis using c2 by simp
  next
    case True
    let ?s3 = "snd (install_python_deps env cfg ?p ?s2)"
    from True have eq: "setup_python env cfg s = install_python_deps env cfg ?p ?s2"
      using assms by (simp add: setup_python_def Let_def case_prod_beta)
    have "events_since s ?s3 = events_since s ?s2 @ events_since ?s2 ?s3"
      by (rule since_append [OF e2 install_python_deps_ext])
    then show ?thesis
      using c2 install_python_deps_no_create [of cfg env ?s2 ?p] by (simp add: eq)
  qed
qed

text \<open>
  C7. Python setup attempts to create the virtual environment only when \<open>.venv\<close> is absent:
  with the directory there the creation command is not invoked, and without it the command
  is invoked exactly once. So over two consecutive runs after the first of which the
  directory exists, the creation command is invoked at most once.
\<close>

theorem setup_python_venv_once:
  "(path_exists env (fst s) ''.venv'' \<longrightarrow>
      exec_event cfg (venv_create_cmd env) None \<notin> set (events_since s (snd (setup_python env cfg s))))
   \<and> (\<not> path_exists env (fst s) ''.venv'' \<longrightarrow>
      count_list (events_since s (snd (setup_python env cfg s))) (exec_event cfg (venv_create_cmd env) None) = 1)
   \<and> (path_exists env (fst (snd (setup_python env cfg s))) ''.venv'' \<longrightarrow>
      count_list (events_since s (snd (setup_python env cfg (snd (setup_python env cfg s)))))
        (exec_event cfg (venv_create_cmd env) None) \<le> 1)"
proof (intro conjI impI)
  assume "path_exists env (fst s) ''.venv''"
  then show "exec_event cfg (venv_create_cmd env) None \<notin> set (events_since s (snd (setup_python env cfg s)))"
    by (rule setup_python_venv_present)
next
  assume "\<not> path_exists env (fst s) ''.venv''"
  then show "count_list (events_since s (snd (setup_python env cfg s))) (exec_event cfg (venv_create_cmd env) None) = 1"
    by (rule setup_python_venv_absent)
next
  let ?e = "exec_event cfg (venv_create_cmd env) None"
  let ?s1 = "snd (setup_python env cfg s)"
  let ?s2 = "snd (setup_python env cfg ?s1)"
  assume after: "path_exists env (fst ?s1) ''.venv''"
  have first: "count_list (events_since s ?s1) ?e \<le> 1"
  proof (cases "path_exists env (fst s) ''.venv''")
    case True
    then show ?thesis using setup_python_venv_present [of env s cfg] by (simp add: count_list_0_iff)
  next
    case False
    then show ?thesis using setup_python_venv_absent [of env s cfg] by simp
  qed
  have second: "count_list (events_since ?s1 ?s2) ?e = 0"
    using setup_python_venv_present [OF after, of cfg] by (simp add: count_list_0_iff)
  have "events_since s ?s2 = events_since s ?s1 @ events_since ?s1 ?s2"
    by (rule since_append [OF setup_python_ext setup_python_ext])
  then show "count_list (events_since s ?s2) ?e \<le> 1"
    using first second by simp
qed

lemmas python_defs =
  setup_python_def install_python_deps_def venv_create_cmd_def path_join_def venv_paths_def
  VENV_PATHS_unix_def VENV_PATHS_windows_def

theorem setup_python_venv_once_witness:
  "\<not> path_exists (sample_env [''python3'']) python_project ''.venv''
   \<and> count_list (events_since (python_project, []) (snd (setup_python (sample_env [''python3'']) plain (python_project, []))))
        (exec_event plain (venv_create_cmd (sample_env [''python3''])) None) = 1
   \<and> path_exists (sample_env [''python3''])
        (fst (snd (setup_python (sample_env [''python3'']) plain (python_project, [])))) ''.venv''
   \<and> count_list (events_since (python_project, [])
          (snd (setup_python (sample_env [''python3'']) plain
             (snd (setup_python (sample_env [''python3'']) plain (python_project, []))))))
        (exec_event plain (venv_create_cmd (sample_env [''python3''])) None) \<le> 1
   \<and> path_exists (sample_env [''python3'']) python_project_venv ''.venv''
   \<and> exec_event plain (venv_create_cmd (sample_env [''python3''])) None
        \<notin> set (events_since (python_project_venv, [])
                 (snd (setup_python (sample_env [''python3'']) plain (python_project_venv, []))))"
proof -
  let ?E = "sample_env [''python3'']"
  let ?s = "(python_project, []) :: files st"
  let ?s' = "(python_project_venv, []) :: files st"
  have a0: "\<not> path_exists ?E python_project ''.venv''"
    by (simp add: sample_defs python_project_def)
  then have a: "\<not> path_exists ?E (fst ?s) ''.venv''" by simp
  have b: "path_exists ?E (fst (snd (setup_python ?E plain ?s))) ''.venv''"
    by (simp add: python_defs run_defs sample_defs python_project_def plain_def Let_def)
  have c0: "path_exists ?E python_project_venv ''.venv''"
    by (simp add: sample_defs python_project_venv_def)
  then have c: "path_exists ?E (fst ?s') ''.venv''" by simp
  note t1 = setup_python_venv_once [of ?E ?s plain]
  note t2 = setup_python_venv_once [of ?E ?s' plain]
  show ?thesis
    by (intro conjI a0 b c0 mp [OF t1 [THEN conjunct2, THEN conjunct1] a]
        mp [OF t1 [THEN conjunct2, THEN conjunct2] b] mp [OF t2 [THEN conjunct1] c])
qed

subsection \<open>Flutter setup\<close>

lemma exec_event_Print:
  "exec_event cfg c cwd = Print line \<longleftrightarrow> dry_run cfg \<and> line = ''  [DRY] '' @ cmd_display c"
  by (auto simp: exec_event_def)

lemma exec_event_Read [simp]: "exec_event cfg c cwd \<noteq> Read p"
  by (simp add: exec_event_def)

lemma has_build_runner_eq:
  "has_build_runner env cfg s =
     (if \<not> path_exists env (fst s) ''pubspec.yaml'' \<or> dry_run cfg then (Inr False, s)
      else ((case read_text env (fst s) ''pubspec.yaml'' of
               ReadText t \<Rightarrow> Inr (py_in_str ''build_runner:'' t)
             | ReadOSError \<Rightarrow> Inr False
             | ReadUnicodeDecodeError \<Rightarrow> Inl UnicodeDecodeError),
            (fst s, snd s @ [Read ''pubspec.yaml''])))"
  by (simp add: has_build_runner_def read_file_def split: read_result.splits)

lemma has_build_runner_True:
  "fst (has_build_runner env cfg s) = Inr True \<longleftrightarrow> \<not> dry_run cfg \<and> manifest_has_build_runner env (fst s)"
  by (simp add: has_build_runner_eq manifest_has_build_runner_def split: read_result.splits)

text \<open>
  C6. Let the flutter probe succeed. The package-fetch step is always run. The build step
  is run as well if and only if dry-run is off and \<open>pubspec.yaml\<close>, as it is after the fetch
  step, contains \<open>build_runner:\<close>; the result is then the conjunction of the results of both
  steps, the build step being attempted whatever the fetch step returned. In dry-run the
  check for the code generator answers false without reading the manifest, and the result
  is that of the fetch step.
\<close>

theorem setup_flutter_steps:
  fixes env :: "'w env" and cfg :: RuntimeConfig and s :: "'w st"
  defines "s1 \<equiv> snd (has_command env ''flutter'' (print (sym_bird @ '' Flutter setup...'') s))"
  defines "s2 \<equiv> snd (execute env cfg flutter_fetch_cmd None s1)"
  defines "ok1 \<equiv> fst (execute env cfg flutter_fetch_cmd None s1)"
  defines "done \<equiv> snd (setup_flutter env cfg s)"
  assumes probe: "probe_ok env (fst s) ''flutter''"
  shows "exec_event cfg flutter_fetch_cmd None \<in> set (events_since s done)
       \<and> (exec_event cfg flutter_build_cmd None \<in> set (events_since s done)
            \<longleftrightarrow> \<not> dry_run cfg \<and> manifest_has_build_runner env (fst s2))
       \<and> (\<not> dry_run cfg \<and> manifest_has_build_runner env (fst s2) \<longrightarrow>
            setup_flutter env cfg s
              = (Inr (ok1 \<and> fst (execute env cfg flutter_build_cmd None (fst s2, snd s2 @ [Read ''pubspec.yaml'']))),
                 snd (execute env cfg flutter_build_cmd None (fst s2, snd s2 @ [Read ''pubspec.yaml'']))))
       \<and> (dry_run cfg \<longrightarrow>
            has_build_runner env cfg s2 = (Inr False, s2) \<and> reads (events_since s done) = []
            \<and> setup_flutter env cfg s = (Inr ok1, s2))"
proof -
  let ?s0 = "print (sym_bird @ '' Flutter setup...'') s"
  let ?fetch = "exec_event cfg flutter_fetch_cmd None"
  let ?build = "exec_event cfg flutter_build_cmd None"
  let ?s3 = "(fst s2, snd s2 @ [Read ''pubspec.yaml''])"
  let ?y = "execute env cfg flutter_build_cmd None ?s3"
  have ok: "fst (has_command env ''flutter'' ?s0)" using probe by (simp add: has_command_eq)
  have e01: "ext s s1" unfolding s1_def by (rule ext_trans [OF ext_print has_command_ext])
  have h1: "events_since s s1 = [Print (sym_bird @ '' Flutter setup...''), Spawn (probe_req ''flutter'')]"
    unfolding s1_def by (simp add: has_command_eq events_since_def)
  have e12: "ext s1 s2" unfolding s2_def by simp
  have e02: "ext s s2" by (rule ext_trans [OF e01 e12])
  have e23: "ext s2 ?s3" by (simp add: ext_def)
  have e3y: "ext ?s3 (snd ?y)" by simp
  have upto2: "events_since s s2 = events_since s s1 @ events_since s1 s2"
    by (rule since_append [OF e01 e12])
  have upto3: "events_since s ?s3 = events_since s s2 @ [Read ''pubspec.yaml'']"
    using e02 by (auto simp: ext_def events_since_def)
  have uptoy: "events_since s (snd ?y) = events_since s ?s3 @ events_since ?s3 (snd ?y)"
    by (rule since_append [OF ext_trans [OF e02 e23] e3y])
  have "?fetch \<in> set (events_since s1 s2)"
    unfolding s2_def by (rule execute_mark)
  then have fetch2: "?fetch \<in> set (events_since s s2)"
    by (simp add: upto2)
  have nb1: "?build \<notin> set (events_since s s1)"
    using not_version_probe [of "''flutter packages pub run build_runner build --delete-conflicting-outputs''" cfg "''flutter''"]
    by (auto simp: h1 flutter_build_cmd_def exec_event_Print sym_bird_def)
  have "?build \<notin> set (events_since s1 s2)"
    unfolding s2_def
    by (simp add: execute_other exec_event_eq flutter_build_cmd_def flutter_fetch_cmd_def
        prepare_command_def cmd_display_def)
  then have nb2: "?build \<notin> set (events_since s s2)"
    using nb1 by (simp add: upto2)
  have nb3: "?build \<notin> set (events_since s ?s3)"
    unfolding upto3 using nb2 by simp
  have "reads (events_since s1 s2) = []"
    unfolding s2_def by (rule execute_reads)
  then have r2: "reads (events_since s s2) = []"
    by (simp add: upto2 h1)
  text \<open>The three ways the strategy ends once the probe has succeeded.\<close>
  consider (skip) "fst (has_build_runner env cfg s2) = Inr False" "snd (has_build_runner env cfg s2) = s2"
    | (skip_read) "fst (has_build_runner env cfg s2) = Inr False" "snd (has_build_runner env cfg s2) = ?s3" "\<not> dry_run cfg"
    | (raise) e where "fst (has_build_runner env cfg s2) = Inl e" "snd (has_build_runner env cfg s2) = ?s3" "\<not> dry_run cfg"
    | (build) "fst (has_build_runner env cfg s2) = Inr True" "snd (has_build_runner env cfg s2) = ?s3"
  proof (cases "\<not> path_exists env (fst s2) ''pubspec.yaml'' \<or> dry_run cfg")
    case True
    then show ?thesis using skip by (simp add: has_build_runner_eq)
  next
    case False
    then have nd: "\<not> dry_run cfg" by simp
    show ?thesis
    proof (cases "read_text env (fst s2) ''pubspec.yaml''")
      case (ReadText t)
      then show ?thesis
        using False nd build skip_read by (cases "py_in_str ''build_runner:'' t") (simp_all add: has_build_runner_eq)
    next
      case ReadOSError
      then show ?thesis using False nd skip_read by (simp add: has_build_runner_eq)
    next
      case ReadUnicodeDecodeError
      then show ?thesis using False nd raise by (simp add: has_build_runner_eq)
    qed
  qed
  then show ?thesis
  proof cases
    case skip
    then have eq: "setup_flutter env cfg s = (Inr ok1, s2)"
      using ok by (simp add: setup_flutter_def case_prod_beta s1_def s2_def ok1_def)
    have no: "\<not> (\<not> dry_run cfg \<and> manifest_has_build_runner env (fst s2))"
      using skip(1) has_build_runner_True [of env cfg s2] by simp
    show ?thesis
      using eq no fetch2 nb2 r2 skip by (auto simp: done_def has_build_runner_eq)
  next
    case skip_read
    then have eq: "setup_flutter env cfg s = (Inr ok1, ?s3)"
      using ok by (simp add: setup_flutter_def case_prod_beta s1_def s2_def ok1_def)
    have no: "\<not> manifest_has_build_runner env (fst s2)"
      using skip_read has_build_runner_True [of env cfg s2] by simp
    show ?thesis
      using eq no fetch2 nb3 skip_read(3) by (simp add: done_def upto3)
  next
    case raise
    then have eq: "setup_flutter env cfg s = (Inl e, ?s3)"
      using ok by (simp add: setup_flutter_def case_prod_beta s1_def s2_def ok1_def)
    have no: "\<not> manifest_has_build_runner env (fst s2)"
      using raise has_build_runner_True [of env cfg s2] by simp
    show ?thesis
      using eq no fetch2 nb3 raise(3) by (simp add: done_def upto3)
  next
    case build
    then have eq: "setup_flutter env cfg s = (Inr (ok1 \<and> fst ?y), snd ?y)"
      using ok by (simp add: setup_flutter_def case_prod_beta s1_def s2_def ok1_def)
    have yes: "\<not> dry_run cfg \<and> manifest_has_build_runner env (fst s2)"
      using build has_build_runner_True [of env cfg s2] by simp
    have "?build \<in> set (events_since s (snd ?y))"
      unfolding uptoy using execute_mark [of cfg flutter_build_cmd None ?s3 env] by simp
    moreover have "?fetch \<in> set (events_since s (snd ?y))"
      unfolding uptoy upto3 using fetch2 by simp
    ultimately show ?thesis
      using eq yes by (simp add: done_def)
  qed
qed


theorem setup_flutter_steps_witness:
  "probe_ok (sample_env [''flutter'']) flutter_project ''flutter''
   \<and> \<not> dry_run plain
   \<and> manifest_has_build_runner (sample_env [''flutter'']) flutter_project
   \<and> exec_event plain flutter_fetch_cmd None
        \<in> set (events_since (flutter_project, []) (snd (setup_flutter (sample_env [''flutter'']) plain (flutter_project, []))))
   \<and> exec_event plain flutter_build_cmd None
        \<in> set (events_since (flutter_project, []) (snd (setup_flutter (sample_env [''flutter'']) plain (flutter_project, []))))
   \<and> dry_run dry
   \<and> exec_event dry flutter_build_cmd None
        \<notin> set (events_since (flutter_project, []) (snd (setup_flutter (sample_env [''flutter'']) dry (flutter_project, []))))
   \<and> reads (events_since (flutter_project, []) (snd (setup_flutter (sample_env [''flutter'']) dry (flutter_project, [])))) = []"
proof -
  let ?E = "sample_env [''flutter'']"
  let ?s = "(flutter_project, []) :: files st"
  have p0: "probe_ok ?E flutter_project ''flutter''"
    by (simp add: probe_ok_def probe_req_def sample_defs)
  then have p: "probe_ok ?E (fst ?s) ''flutter''" by simp
  have nd: "\<not> dry_run plain" and d: "dry_run dry" by (simp_all add: plain_def dry_def)
  have w: "fst (snd (execute ?E plain flutter_fetch_cmd None
              (snd (has_command ?E ''flutter'' (print (sym_bird @ '' Flutter setup...'') ?s))))) = flutter_project"
    by (simp add: run_defs sample_defs flutter_fetch_cmd_def plain_def)
  have m: "manifest_has_build_runner ?E flutter_project"
    by (simp add: manifest_has_build_runner_def sample_defs flutter_project_def)
  note t1 = setup_flutter_steps [OF p, of plain]
  note t2 = setup_flutter_steps [OF p, of dry]
  have a: "exec_event plain flutter_fetch_cmd None \<in> set (events_since ?s (snd (setup_flutter ?E plain ?s)))"
    using t1 [THEN conjunct1] .
  have b: "exec_event plain flutter_build_cmd None \<in> set (events_since ?s (snd (setup_flutter ?E plain ?s)))"
    using t1 [THEN conjunct2, THEN conjunct1] nd m w by simp
  have c: "exec_event dry flutter_build_cmd None \<notin> set (events_since ?s (snd (setup_flutter ?E dry ?s)))"
    using t2 [THEN conjunct2, THEN conjunct1] d by simp
  have e: "reads (events_since ?s (snd (setup_flutter ?E dry ?s))) = []"
    using mp [OF t2 [THEN conjunct2, THEN conjunct2, THEN conjunct2] d, THEN conjunct2, THEN conjunct1] .
  show ?thesis by (intro conjI p0 nd m a b d c e)
qed

subsection \<open>The processes of a dry run\<close>

lemma is_probe_version [simp]: "is_probe (probe_req c)"
  by (simp add: is_probe_def is_version_probe_def probe_req_def)

lemma is_probe_package [simp]: "is_probe (package_probe_req python_exe package)"
  by (simp add: is_probe_def is_package_probe_def package_probe_req_def)

lemma po_refl [simp]: "probes_only s s"
  by (simp add: probes_only_def)

lemma po_trans:
  assumes "probes_only s s1" and "probes_only s1 s2"
  shows "probes_only s s2"
proof -
  have a: "ext s s1" and b: "ext s1 s2" using assms by (simp_all add: probes_only_def)
  have "events_since s s2 = events_since s s1 @ events_since s1 s2"
    by (rule since_append [OF a b])
  then show ?thesis
    using assms ext_trans [OF a b] by (simp add: probes_only_def)
qed

lemma po_print: "probes_only s s1 \<Longrightarrow> probes_only s (print line s1)"
  by (erule po_trans) (simp add: probes_only_def)

lemma po_read: "probes_only s s1 \<Longrightarrow> probes_only s (snd (read_file env p s1))"
  by (erule po_trans) (simp add: probes_only_def read_file_def ext_def events_since_def)

lemma po_execute: "dry_run cfg \<Longrightarrow> probes_only s s1 \<Longrightarrow> probes_only s (snd (execute env cfg c cwd s1))"
  by (erule po_trans) (simp add: probes_only_def execute_spawns)

lemma po_has_command: "probes_only s s1 \<Longrightarrow> probes_only s (snd (has_command env c s1))"
  by (erule po_trans) (simp add: probes_only_def)

lemma po_has_python_package:
  "probes_only s s1 \<Longrightarrow> probes_only s (snd (has_python_package env python_exe package s1))"
  by (erule po_trans)
    (auto simp: probes_only_def has_python_package_def run_def ext_def events_since_def
      split: prod.splits proc_result.splits)

lemma po_get_package_manager:
  "probes_only s s1 \<Longrightarrow> probes_only s (snd (get_package_manager env s1))"
proof (erule po_trans)
  obtain cs where "snd (snd (get_package_manager env s1)) = snd s1 @ map (\<lambda>c. Spawn (probe_req c)) cs"
    using get_package_manager_probes by blast
  moreover have "list_all is_probe (spawns (map (\<lambda>c. Spawn (probe_req c)) cs))"
    by (induction cs) simp_all
  ultimately show "probes_only s1 (snd (get_package_manager env s1))"
    by (simp add: probes_only_def ext_def events_since_def)
qed

lemmas po_steps = po_print po_read po_execute po_has_command po_has_python_package po_get_package_manager

lemma po_install_python_deps:
  "dry_run cfg \<Longrightarrow> probes_only s s1 \<Longrightarrow> probes_only s (snd (install_python_deps env cfg p s1))"
  by (auto simp: install_python_deps_def intro!: po_steps)

lemma po_setup_python:
  "dry_run cfg \<Longrightarrow> probes_only s s1 \<Longrightarrow> probes_only s (snd (setup_python env cfg s1))"
  by (auto simp: setup_python_def Let_def case_prod_beta intro!: po_steps po_install_python_deps)

lemma po_setup_node:
  "dry_run cfg \<Longrightarrow> probes_only s s1 \<Longrightarrow> probes_only s (snd (setup_node env cfg s1))"
  by (auto simp: setup_node_def Let_def case_prod_beta intro!: po_steps split: option.splits)

lemma po_setup_rust:
  "dry_run cfg \<Longrightarrow> probes_only s s1 \<Longrightarrow> probes_only s (snd (setup_rust env cfg s1))"
  by (auto simp: setup_rust_def Let_def case_prod_beta intro!: po_steps)

lemma po_has_build_runner:
  "probes_only s s1 \<Longrightarrow> probes_only s (snd (has_build_runner env cfg s1))"
  by (auto simp: has_build_runner_def case_prod_beta intro!: po_steps split: read_result.splits)

lemma po_setup_flutter:
  "dry_run cfg \<Longrightarrow> probes_only s s1 \<Longrightarrow> probes_only s (snd (setup_flutter env cfg s1))"
  by (auto simp: setup_flutter_def Let_def case_prod_beta intro!: po_steps po_has_build_runner split: sum.splits)

lemma po_setup_git_hooks:
  "dry_run cfg \<Longrightarrow> probes_only s s1 \<Longrightarrow> probes_only s (snd (setup_git_hooks env cfg s1))"
  by (auto simp: setup_git_hooks_def Let_def case_prod_beta intro!: po_steps)


lemma po_formatter_loop:
  "dry_run cfg \<Longrightarrow> probes_only s s1 \<Longrightarrow> probes_only s (snd (formatter_loop env cfg p xs s1))"
proof (induction xs arbitrary: s1)
  case Nil
  then show ?case by simp
next
  case (Cons x xs)
  obtain formatter_name c where x: "x = (formatter_name, c)" by (cases x)
  have a: "probes_only s (snd (has_python_package env p formatter_name s1))"
    using Cons.prems by (simp add: po_has_python_package)
  show ?case
    using Cons.prems a Cons.IH [OF Cons.prems(1) a]
    by (auto simp: x case_prod_beta intro!: po_steps)
qed

lemma po_format_python:
  "dry_run cfg \<Longrightarrow> probes_only s s1 \<Longrightarrow> probes_only s (snd (format_python env cfg s1))"
  by (simp add: format_python_def Let_def po_formatter_loop del: formatter_loop.simps)

lemma po_has_npm_format_script:
  "probes_only s s1 \<Longrightarrow> probes_only s (snd (has_npm_format_script env s1))"
  by (auto simp: has_npm_format_script_def case_prod_beta intro!: po_steps
      split: read_result.splits option.splits)

lemma po_format_node:
  "dry_run cfg \<Longrightarrow> probes_only s s1 \<Longrightarrow> probes_only s (snd (format_node env cfg s1))"
  by (auto simp: format_node_def case_prod_beta intro!: po_steps po_has_npm_format_script
      split: sum.splits)

lemma po_format_flutter:
  "dry_run cfg \<Longrightarrow> probes_only s s1 \<Longrightarrow> probes_only s (snd (format_flutter env cfg s1))"
  by (auto simp: format_flutter_def intro!: po_steps)

lemma po_format_all:
  assumes "dry_run cfg" and "probes_only s s1"
  shows "probes_only s (snd (format_all env cfg detected s1))"
  using assms
  by (auto simp: format_all_def case_prod_beta split: sum.splits
      intro!: po_format_python po_format_node po_format_flutter)

lemma po_setup_methods:
  "dry_run cfg \<Longrightarrow> setup_methods env cfg project_type = Some setup \<Longrightarrow> probes_only s s1
   \<Longrightarrow> probes_only s (snd (setup s1))"
  by (auto simp: setup_methods_def returns_def case_prod_beta split: if_splits
      intro!: po_setup_python po_setup_node po_setup_rust po_setup_flutter po_setup_git_hooks)

lemma po_all_setups:
  "dry_run cfg \<Longrightarrow> probes_only s s1 \<Longrightarrow> probes_only s (snd (all_setups env cfg xs s1))"
proof (induction xs arbitrary: s1)
  case Nil
  then show ?case by simp
next
  case (Cons x xs)
  show ?case
  proof (cases "setup_methods env cfg x")
    case None
    then show ?thesis using Cons by simp
  next
    case (Some f)
    have a: "probes_only s (snd (f s1))"
      using po_setup_methods [OF Cons.prems(1) Some Cons.prems(2)] .
    show ?thesis
      using Some a Cons.IH [OF Cons.prems(1) a]
      by (simp add: case_prod_beta split: sum.splits)
  qed
qed

lemma po_parse_arguments: "probes_only s (snd (parse_arguments env argv s))"
  by (auto simp: parse_arguments_def intro!: po_print)

lemma parse_arguments_dry:
  "''--dry-run'' \<in> set argv \<or> ''-n'' \<in> set argv \<Longrightarrow> parse_arguments env argv s = (Inr cfg, s1)
   \<Longrightarrow> dry_run cfg"
  by (auto simp: parse_arguments_def split: if_splits)

text \<open>In a run with dry-run set, every process that is started is a probe.\<close>

lemma dry_run_upper_bound:
  assumes "''--dry-run'' \<in> set argv \<or> ''-n'' \<in> set argv"
  shows "list_all is_probe (spawns (events_since s (snd (main env argv s))))"
proof -
  have "probes_only s (snd (main env argv s))"
  proof -
    obtain r s1 where Pair: "parse_arguments env argv s = (r, s1)"
      by (cases "parse_arguments env argv s")
    have p: "probes_only s s1" using po_parse_arguments [of s env argv] Pair by simp
    show ?thesis
    proof (cases r)
      case (Inl code)
      then show ?thesis using Pair p by (simp add: main_def)
    next
      case (Inr cfg)
      have d: "dry_run cfg" using parse_arguments_dry [OF assms] Pair Inr by simp
      let ?s2 = "print (sym_glass @ '' Detecting projects...'') s1"
      let ?detected = "detect_languages env (fst ?s2)"
      let ?s3 = "snd (all_setups env cfg ?detected (print (sym_check @ '' Found: '' @ py_join '', '' ?detected) ?s2))"
      have p2: "probes_only s ?s2" using p by (rule po_print)
      have p3: "probes_only s ?s3" by (rule po_all_setups [OF d po_print [OF p2]])
      have p4: "probes_only s (snd (format_all env cfg ?detected ?s3))" by (rule po_format_all [OF d p3])
      show ?thesis
        using Pair Inr p2 p3 p4
        by (auto simp: main_def Let_def case_prod_beta split: sum.splits intro!: po_print)
    qed
  qed
  then show ?thesis by (simp add: probes_only_def)
qed


lemmas main_defs =
  main_def parse_arguments_def detect_languages_def PROJECT_DETECTORS_def setup_methods_def
  returns_def setup_node_def setup_rust_def format_all_def format_node_def
  has_npm_format_script_def format_in_scripts_def prettier_configs_def read_file_def

subsection \<open>The exit status\<close>

lemma all_setups_results:
  "isl (fst (all_setups env cfg xs s)) = list_ex isl (setup_results env cfg xs s)
   \<and> (\<forall>b. fst (all_setups env cfg xs s) = Inr b
          \<longrightarrow> b = list_all succeeded (setup_results env cfg xs s))"
proof (induction xs arbitrary: s)
  case Nil
  then show ?case by simp
next
  case (Cons x xs)
  show ?case
  proof (cases "setup_methods env cfg x")
    case None
    then show ?thesis using Cons.IH [of s] by simp
  next
    case (Some f)
    obtain r s1 where f: "f s = (r, s1)" by (cases "f s")
    show ?thesis
    proof (cases r)
      case (Inl e)
      then show ?thesis using Some f by simp
    next
      case (Inr ok)
      then show ?thesis using Some f Cons.IH [of s1] by (cases ok) (simp_all add: succeeded_def)
    qed
  qed
qed

lemma format_all_results:
  "isl (fst (format_all env cfg detected s)) = list_ex isl (format_results env cfg detected s)
   \<and> (\<forall>b. fst (format_all env cfg detected s) = Inr b
          \<longrightarrow> b = list_all succeeded (format_results env cfg detected s))"
  by (auto simp: format_all_def format_results_def succeeded_def case_prod_beta split: sum.splits)

lemma run_results:
  "(case fst (all_setups env cfg detected s) of
            Inl e \<Rightarrow> \<not> list_all succeeded (strategy_results env cfg detected s)
          | Inr ok \<Rightarrow>
              (case fst (format_all env cfg detected (snd (all_setups env cfg detected s))) of
                 Inl e \<Rightarrow> \<not> list_all succeeded (strategy_results env cfg detected s)
               | Inr fok \<Rightarrow> (ok \<and> fok) = list_all succeeded (strategy_results env cfg detected s)))"
proof -
  let ?a = "all_setups env cfg detected s"
  let ?f = "format_all env cfg detected (snd ?a)"
  have ex: "list_ex isl rs \<Longrightarrow> \<not> list_all succeeded rs" for rs :: "(exn + bool) list"
    by (induction rs) (auto simp: succeeded_def)
  show ?thesis
  proof (cases "fst ?a")
    case (Inl e)
    then have "list_ex isl (setup_results env cfg detected s)"
      using all_setups_results [of env cfg detected s] by simp
    then show ?thesis using Inl ex by (simp add: strategy_results_def)
  next
    case (Inr ok)
    then have n: "\<not> list_ex isl (setup_results env cfg detected s)"
      and ok: "ok = list_all succeeded (setup_results env cfg detected s)"
      using all_setups_results [of env cfg detected s] by simp_all
    show ?thesis
    proof (cases "fst ?f")
      case (Inl e)
      then have "list_ex isl (format_results env cfg detected (snd ?a))"
        using format_all_results [of env cfg detected "snd ?a"] by simp
      then show ?thesis using Inr Inl n ex by (simp add: strategy_results_def)
    next
      case (Inr fok)
      then have "fok = list_all succeeded (format_results env cfg detected (snd ?a))"
        using format_all_results [of env cfg detected "snd ?a"] by simp
      then show ?thesis using \<open>fst ?a = Inr ok\<close> Inr n ok by (simp add: strategy_results_def)
    qed
  qed
qed


text \<open>
  The exit status in general. With \<open>--help\<close> or \<open>-h\<close> among the arguments the run prints
  the usage text, does nothing else and exits with status 0. Otherwise, when no ecosystem is
  detected, it prints that no supported project was found, invokes no strategy and ends with
  status 0. Otherwise the exit status is 0 when every strategy of the run has returned true,
  and 1 when one of them has returned false or has raised.
\<close>

lemma exit_status_in_general:
  fixes env :: "'w env" and argv :: "string list" and s :: "'w st"
  defines "usage \<equiv> ''--help'' \<in> set argv \<or> ''-h'' \<in> set argv"
  defines "cfg \<equiv> \<lparr>dry_run = ''--dry-run'' \<in> set argv \<or> ''-n'' \<in> set argv,
                   verbose = ''--verbose'' \<in> set argv \<or> ''-v'' \<in> set argv,
                   is_windows = os_nt env\<rparr>"
  defines "detected \<equiv> detect_languages env (fst s)"
  defines "s2 \<equiv> print (sym_glass @ '' Detecting projects...'') s"
  shows "(usage \<longrightarrow>
            fst (main env argv s) = SysExit 0 \<and> exit_status (fst (main env argv s)) = 0
            \<and> events_since s (snd (main env argv s))
                = map Print [doc, [CHR 0x0A] @ ''Options:'',
                    ''  -n, --dry-run    Show what would be done without executing'',
                    ''  -v, --verbose    Show detailed output and error messages'',
                    ''  -h, --help       Show this help message''])
       \<and> (\<not> usage \<and> detected = [] \<longrightarrow>
            main env argv s = (Returned, print ''No supported projects found.'' s2)
            \<and> exit_status (fst (main env argv s)) = 0)
       \<and> (\<not> usage \<and> detected \<noteq> [] \<longrightarrow>
            exit_status (fst (main env argv s))
              = (if list_all succeeded
                      (strategy_results env cfg detected
                         (print (sym_check @ '' Found: '' @ py_join '', '' detected) s2))
                 then 0 else 1))"
proof (intro conjI impI)
  assume usage
  then show "fst (main env argv s) = SysExit 0" "exit_status (fst (main env argv s)) = 0"
    "events_since s (snd (main env argv s))
                = map Print [doc, [CHR 0x0A] @ ''Options:'',
                    ''  -n, --dry-run    Show what would be done without executing'',
                    ''  -v, --verbose    Show detailed output and error messages'',
                    ''  -h, --help       Show this help message'']"
    by (auto simp: usage_def main_def parse_arguments_def exit_status_def events_since_def)
next
  assume "\<not> usage \<and> detected = []"
  then show "main env argv s = (Returned, print ''No supported projects found.'' s2)"
    "exit_status (fst (main env argv s)) = 0"
    by (auto simp: usage_def detected_def s2_def main_def parse_arguments_def exit_status_def Let_def)
next
  assume a: "\<not> usage \<and> detected \<noteq> []"
  let ?s3 = "print (sym_check @ '' Found: '' @ py_join '', '' detected) s2"
  have p: "parse_arguments env argv s = (Inr cfg, s)"
    using a by (simp add: usage_def cfg_def parse_arguments_def)
  have m: "fst (main env argv s)
      = (case fst (all_setups env cfg detected ?s3) of
           Inl e \<Rightarrow> Uncaught e
         | Inr ok \<Rightarrow>
             (case fst (format_all env cfg detected (snd (all_setups env cfg detected ?s3))) of
                Inl e \<Rightarrow> Uncaught e
              | Inr fok \<Rightarrow> if ok \<and> fok then Returned else SysExit 1))"
    using a unfolding main_def p s2_def detected_def
    by (simp add: Let_def case_prod_beta split: sum.splits)
  show "exit_status (fst (main env argv s))
          = (if list_all succeeded (strategy_results env cfg detected ?s3) then 0 else 1)"
    using run_results [of env cfg detected ?s3]
    by (auto simp: m exit_status_def split: sum.splits)
qed


lemma exit_status_examples:
  "(''--help'' \<in> set [''autofix.py'', ''--help''] \<or> ''-h'' \<in> set [''autofix.py'', ''--help''])
   \<and> exit_status (fst (main (sample_env []) [''autofix.py'', ''--help''] ([], []))) = 0
   \<and> \<not> (''--help'' \<in> set [''autofix.py''] \<or> ''-h'' \<in> set [''autofix.py''])
   \<and> detect_languages (sample_env []) [] = []
   \<and> main (sample_env []) [''autofix.py''] ([], [])
       = (Returned, ([], [Print (sym_glass @ '' Detecting projects...''), Print ''No supported projects found.'']))
   \<and> detect_languages (sample_env [''npm'']) node_project = [''node'']
   \<and> exit_status (fst (main (sample_env [''npm'']) [''autofix.py''] (node_project, []))) = 1
   \<and> detect_languages (sample_env [''python3'']) python_project = [''python'']
   \<and> exit_status (fst (main (sample_env [''python3'']) [''autofix.py''] (python_project, []))) = 0"
proof -
  let ?A = "[''autofix.py'']"
  have h: "''--help'' \<in> set [''autofix.py'', ''--help''] \<or> ''-h'' \<in> set [''autofix.py'', ''--help'']"
    by simp
  have n: "\<not> (''--help'' \<in> set ?A \<or> ''-h'' \<in> set ?A)" by simp
  have d0: "detect_languages (sample_env []) [] = []"
    by (simp add: detect_languages_def PROJECT_DETECTORS_def sample_defs)
  have d1: "detect_languages (sample_env [''npm'']) node_project = [''node'']"
    by (simp add: detect_languages_def PROJECT_DETECTORS_def sample_defs node_project_def)
  have d2: "detect_languages (sample_env [''python3'']) python_project = [''python'']"
    by (simp add: detect_languages_def PROJECT_DETECTORS_def sample_defs python_project_def)
  note t0 = exit_status_in_general [of "[''autofix.py'', ''--help'']" "sample_env []" "([], [])", THEN conjunct1]
  note t1 = exit_status_in_general [of ?A "sample_env []" "([], [])", THEN conjunct2, THEN conjunct1]
  note t2 = exit_status_in_general [of ?A "sample_env [''npm'']" "(node_project, [])", THEN conjunct2, THEN conjunct2]
  note t3 = exit_status_in_general [of ?A "sample_env [''python3'']" "(python_project, [])", THEN conjunct2, THEN conjunct2]
  have a: "exit_status (fst (main (sample_env []) [''autofix.py'', ''--help''] ([], []))) = 0"
    using mp [OF t0 h, THEN conjunct2, THEN conjunct1] .
  have b: "main (sample_env []) ?A ([], [])
       = (Returned, ([], [Print (sym_glass @ '' Detecting projects...''), Print ''No supported projects found.'']))"
    using t1 n d0 by (simp add: print_def)
  have c: "exit_status (fst (main (sample_env [''npm'']) ?A (node_project, []))) = 1"
    using t2 n d1
    by (simp add: strategy_results_def format_results_def succeeded_def main_defs run_defs sample_defs
        node_project_def)
  have e: "exit_status (fst (main (sample_env [''python3'']) ?A (python_project, []))) = 0"
    using t3 n d2
    by (simp add: strategy_results_def format_results_def succeeded_def main_defs run_defs sample_defs
        python_project_def python_defs format_python_def has_python_package_def package_probe_req_def Let_def)
  show ?thesis by (intro conjI h a n d0 b d1 c d2 e)
qed


subsection \<open>The orchestrator stops at the first setup that fails\<close>

text \<open>
  Once a setup strategy has returned false, \<open>all\<close> returns false in the state that strategy
  has left: the strategies of the remaining ecosystems are not called.
\<close>

lemma all_setups_short_circuit:
  "setup_methods env cfg project_type = Some f \<Longrightarrow> f s = (Inr False, s1)
   \<Longrightarrow> all_setups env cfg (project_type # rest) s = (Inr False, s1)
       \<and> setup_results env cfg (project_type # rest) s = [Inr False]"
  by simp

text \<open>
  C1. On the sample machine with cargo installed and no package manager of Node, in a
  directory with \<open>package.json\<close> and \<open>Cargo.toml\<close>: both ecosystems are detected, the Node
  setup returns false, and the Rust setup, which would succeed, is not invoked: its result
  is not among those of the run, its status line is not printed, and cargo is neither
  probed nor run. \<open>all\<close> over a generator stops at the first false.
\<close>

theorem all_stops_at_first_failure:
  "detect_languages (sample_env [''cargo'']) node_rust_project = [''node'', ''rust'']
   \<and> setup_results (sample_env [''cargo'']) plain [''node'', ''rust''] (node_rust_project, []) = [Inr False]
   \<and> fst (setup_rust (sample_env [''cargo'']) plain (node_rust_project, [])) = True
   \<and> fst (main (sample_env [''cargo'']) [''autofix.py''] (node_rust_project, [])) = SysExit 1
   \<and> Print (sym_crab @ '' Rust setup...'')
        \<notin> set (snd (snd (main (sample_env [''cargo'']) [''autofix.py''] (node_rust_project, []))))
   \<and> spawns (snd (snd (main (sample_env [''cargo'']) [''autofix.py''] (node_rust_project, []))))
       = [probe_req ''npm'', probe_req ''pnpm'', probe_req ''yarn'']"
  by (simp add: main_defs run_defs sample_defs node_rust_project_def plain_def
      sym_crab_def sym_glass_def sym_check_def sym_package_def sym_cross_def sym_warning_def sym_bulb_def)

subsection \<open>Manifests that cannot be read\<close>

text \<open>
  What the two checks recover from: a manifest that cannot be opened or read (\<open>OSError\<close>),
  and a \<open>package.json\<close> whose text is not JSON.
\<close>

lemma read_failures_caught:
  "path_exists env (fst s) ''package.json'' \<Longrightarrow> read_text env (fst s) ''package.json'' = ReadOSError
     \<Longrightarrow> fst (has_npm_format_script env s) = Inr False"
  "path_exists env (fst s) ''package.json'' \<Longrightarrow> read_text env (fst s) ''package.json'' = ReadText t
     \<Longrightarrow> json_loads env t = None \<Longrightarrow> fst (has_npm_format_script env s) = Inr False"
  "read_text env (fst s) ''pubspec.yaml'' = ReadOSError \<Longrightarrow> fst (has_build_runner env cfg s) = Inr False"
  by (simp_all add: has_npm_format_script_def has_build_runner_def read_file_def)

text \<open>
  C8. What they do not recover from. A \<open>package.json\<close> whose bytes are not text raises
  \<open>UnicodeDecodeError\<close> in the format-script check, and one whose JSON is a list raises
  \<open>AttributeError\<close>; a \<open>pubspec.yaml\<close> whose bytes are not text raises \<open>UnicodeDecodeError\<close>
  in the build-runner check. None of them is caught: a dry run, in which every command
  succeeds, ends with the exception and exit status 1.
\<close>

theorem manifest_failures_escape:
  "has_npm_format_script (sample_env [''npm'']) (binary_package_json, [])
     = (Inl UnicodeDecodeError, (binary_package_json, [Read ''package.json'']))
   \<and> has_npm_format_script (sample_env [''npm'']) (list_package_json, [])
     = (Inl AttributeError, (list_package_json, [Read ''package.json'']))
   \<and> has_build_runner (sample_env [''flutter'']) plain (binary_pubspec, [])
     = (Inl UnicodeDecodeError, (binary_pubspec, [Read ''pubspec.yaml'']))
   \<and> fst (main (sample_env [''npm'']) [''autofix.py'', ''-n''] (binary_package_json, []))
     = Uncaught UnicodeDecodeError
   \<and> fst (main (sample_env [''npm'']) [''autofix.py'', ''-n''] (list_package_json, []))
     = Uncaught AttributeError
   \<and> exit_status (fst (main (sample_env [''npm'']) [''autofix.py'', ''-n''] (list_package_json, []))) = 1
   \<and> setup_results (sample_env [''npm'']) dry [''node''] (list_package_json, []) = [Inr True]
   \<and> fst (main (sample_env [''flutter'']) [''autofix.py''] (binary_pubspec, []))
     = Uncaught UnicodeDecodeError"
  by (simp add: main_defs run_defs sample_defs binary_package_json_def list_package_json_def
      binary_pubspec_def has_build_runner_def setup_flutter_def flutter_fetch_cmd_def
      flutter_build_cmd_def plain_def dry_def exit_status_def)

theorem manifest_failures_escape_witness:
  "path_exists (sample_env [''flutter'']) binary_pubspec ''pubspec.yaml''
   \<and> \<not> dry_run plain
   \<and> isl (fst (has_build_runner (sample_env [''flutter'']) plain (binary_pubspec, [])))
   \<and> isl (fst (has_npm_format_script (sample_env [''npm'']) (list_package_json, [])))"
  using manifest_failures_escape by (simp add: sample_defs binary_pubspec_def plain_def)

subsection \<open>String commands without a shell\<close>

lemma spawns_mem: "Spawn rq \<in> set evs \<Longrightarrow> rq \<in> set (spawns evs)"
  by (induction evs rule: spawns.induct) auto







lemma has_build_runner_ext: "ext s (snd (has_build_runner env cfg s))"
  by (simp add: has_build_runner_eq ext_def)












subsection \<open>The probes start their process whatever the configuration\<close>

lemma mem_later:
  assumes "ext s s1" and "ext s1 s2" and "e \<in> set (events_since s s1)"
  shows "e \<in> set (events_since s s2)"
  using since_append [OF assms(1,2)] assms(3) by simp

lemma has_python_package_eq:
  "snd (snd (has_python_package env python_exe package s))
     = snd s @ [Spawn (package_probe_req python_exe package)]"
  by (simp add: has_python_package_def run_def split: prod.splits proc_result.splits)

lemma has_python_package_ext [simp]: "ext s (snd (has_python_package env python_exe package s))"
  by (simp add: ext_def has_python_package_eq)

lemma formatter_loop_ext: "ext s (snd (formatter_loop env cfg p xs s))"
proof (induction xs arbitrary: s)
  case Nil
  then show ?case by simp
next
  case (Cons x xs)
  obtain formatter_name c where x: "x = (formatter_name, c)" by (cases x)
  let ?s1 = "snd (has_python_package env p formatter_name s)"
  have a: "ext s (snd (formatter_loop env cfg p xs ?s1))"
    by (rule ext_trans [OF has_python_package_ext Cons.IH])
  have b: "ext s (snd (execute env cfg c None
              (print (sym_sparkles @ '' Formatting with '' @ formatter_name @ ''...'') ?s1)))"
    by (rule ext_trans [OF has_python_package_ext ext_trans [OF ext_print execute_ext]])
  show ?case using a b by (simp add: x case_prod_beta)
qed

lemma format_python_probes:
  assumes "path_exists env (fst s) (path_join env ''.venv'' (venv_python (venv_paths cfg)))"
  shows "package_probe_req (path_join env ''.venv'' (venv_python (venv_paths cfg))) ''ruff''
           \<in> set (spawns (events_since s (snd (format_python env cfg s))))"
proof -
  let ?p = "path_join env ''.venv'' (venv_python (venv_paths cfg))"
  let ?s1 = "snd (has_python_package env ?p ''ruff'' s)"
  let ?rest = "[(''black'', CmdList [?p, ''-m'', ''black'', ''.''])]"
  let ?s2 = "print (sym_sparkles @ '' Formatting with '' @ ''ruff'' @ ''...'') ?s1"
  let ?c = "CmdList [?p, ''-m'', ''ruff'', ''format'', ''.'']"
  have m: "Spawn (package_probe_req ?p ''ruff'') \<in> set (events_since s ?s1)"
    by (simp add: has_python_package_eq events_since_def)
  have a: "Spawn (package_probe_req ?p ''ruff'') \<in> set (events_since s (snd (execute env cfg ?c None ?s2)))"
    by (rule mem_later [OF has_python_package_ext ext_trans [OF ext_print execute_ext] m])
  have b: "Spawn (package_probe_req ?p ''ruff'') \<in> set (events_since s (snd (formatter_loop env cfg ?p ?rest ?s1)))"
    by (rule mem_later [OF has_python_package_ext formatter_loop_ext m])
  have "Spawn (package_probe_req ?p ''ruff'') \<in> set (events_since s (snd (format_python env cfg s)))"
    using assms a b
    by (simp add: format_python_def Let_def case_prod_beta del: formatter_loop.simps(2))
      (simp add: case_prod_beta)
  then show ?thesis by (rule spawns_mem)
qed

lemma setup_rust_probes:
  "probe_req ''cargo'' \<in> set (spawns (events_since s (snd (setup_rust env cfg s))))"
proof -
  let ?s1 = "snd (has_command env ''cargo'' (print (sym_crab @ '' Rust setup...'') s))"
  have e: "ext s ?s1" by (rule ext_trans [OF ext_print has_command_ext])
  have m: "Spawn (probe_req ''cargo'') \<in> set (events_since s ?s1)"
    by (simp add: has_command_eq events_since_def)
  have "ext ?s1 (snd (setup_rust env cfg s))"
    by (simp add: setup_rust_def case_prod_beta)
  then show ?thesis using mem_later [OF e _ m] by (simp add: spawns_mem)
qed

lemma setup_flutter_probes:
  "probe_req ''flutter'' \<in> set (spawns (events_since s (snd (setup_flutter env cfg s))))"
proof -
  let ?s1 = "snd (has_command env ''flutter'' (print (sym_bird @ '' Flutter setup...'') s))"
  let ?s2 = "snd (execute env cfg flutter_fetch_cmd None ?s1)"
  let ?s3 = "snd (has_build_runner env cfg ?s2)"
  have e: "ext s ?s1" by (rule ext_trans [OF ext_print has_command_ext])
  have m: "Spawn (probe_req ''flutter'') \<in> set (events_since s ?s1)"
    by (simp add: has_command_eq events_since_def)
  have e3: "ext ?s1 ?s3" by (rule ext_trans [OF execute_ext has_build_runner_ext])
  have e4: "ext ?s1 (snd (execute env cfg flutter_build_cmd None ?s3))"
    by (rule ext_trans [OF e3 execute_ext])
  have "ext ?s1 (snd (setup_flutter env cfg s))"
    using e3 e4 by (simp add: setup_flutter_def case_prod_beta split: sum.splits)
  then show ?thesis using mem_later [OF e _ m] by (simp add: spawns_mem)
qed

lemma get_package_manager_ext: "ext s (snd (get_package_manager env s))"
  using get_package_manager_probes [of env s] by (auto simp: ext_def)

lemma lock_file_loop_grows:
  "length (snd s) \<le> length (snd (snd (lock_file_loop env xs s)))
   \<and> (fst (lock_file_loop env xs s) \<noteq> None
        \<longrightarrow> length (snd s) < length (snd (snd (lock_file_loop env xs s))))"
proof (induction xs arbitrary: s)
  case Nil
  then show ?case by simp
next
  case (Cons x xs)
  obtain lock_file pm where x: "x = (lock_file, pm)" by (cases x)
  let ?s1 = "snd (has_command env pm s)"
  have l: "length (snd ?s1) = Suc (length (snd s))" by (simp add: has_command_eq)
  show ?case
    using Cons.IH [of s] Cons.IH [of ?s1] l by (auto simp: x case_prod_beta)
qed

lemma next_available_grows:
  "length (snd s) < length (snd (snd (next_available env (pm # pms) s)))"
proof -
  let ?s1 = "snd (has_command env pm s)"
  have l: "length (snd ?s1) = Suc (length (snd s))" by (simp add: has_command_eq)
  obtain cs where "snd (snd (next_available env pms ?s1)) = snd ?s1 @ map (\<lambda>c. Spawn (probe_req c)) cs"
    using next_available_probes by blast
  then have "length (snd ?s1) \<le> length (snd (snd (next_available env pms ?s1)))" by simp
  then show ?thesis using l by (simp add: case_prod_beta)
qed

lemma get_package_manager_starts:
  "spawns (events_since s (snd (get_package_manager env s))) \<noteq> []"
proof -
  let ?l = "lock_file_loop env lock_files s"
  have g: "length (snd s) < length (snd (snd (get_package_manager env s)))"
  proof (cases "fst ?l")
    case None
    then have "get_package_manager env s = next_available env [''npm'', ''pnpm'', ''yarn''] (snd ?l)"
      by (simp add: get_package_manager_def case_prod_beta)
    then show ?thesis
      using lock_file_loop_grows [of s env lock_files]
        next_available_grows [of "snd ?l" env "''npm''" "[''pnpm'', ''yarn'']"] by simp
  next
    case (Some pm)
    then have "get_package_manager env s = (Some pm, snd ?l)"
      by (simp add: get_package_manager_def case_prod_beta)
    then show ?thesis using lock_file_loop_grows [of s env lock_files] Some by simp
  qed
  obtain cs where cs: "snd (snd (get_package_manager env s)) = snd s @ map (\<lambda>c. Spawn (probe_req c)) cs"
    using get_package_manager_probes by blast
  then have "cs \<noteq> []" using g by auto
  then have "spawns (map (\<lambda>c. Spawn (probe_req c)) cs) \<noteq> []" by (cases cs) simp_all
  then show ?thesis using cs by (simp add: events_since_def)
qed

lemma setup_node_probes:
  "spawns (events_since s (snd (setup_node env cfg s))) \<noteq> []"
proof -
  let ?s0 = "print (sym_package @ '' Node.js setup...'') s"
  let ?g = "get_package_manager env ?s0"
  let ?s1 = "snd ?g"
  have e: "ext s ?s1" by (rule ext_trans [OF ext_print get_package_manager_ext])
  have "events_since s ?s1 = events_since s ?s0 @ events_since ?s0 ?s1"
    by (rule since_append [OF ext_print get_package_manager_ext])
  then have m: "spawns (events_since s ?s1) \<noteq> []"
    using get_package_manager_starts [of ?s0 env] by simp
  have f: "ext ?s1 (snd (setup_node env cfg s))"
  proof (cases "fst ?g")
    case None
    then show ?thesis by (simp add: setup_node_def case_prod_beta)
  next
    case (Some pm)
    let ?s2 = "print (''  Using: '' @ pm) ?s1"
    have a: "ext ?s1 (snd (execute env cfg c None ?s2))" for c
      by (rule ext_trans [OF ext_print execute_ext])
    have b: "ext ?s1 (snd (execute env cfg c None (snd (execute env cfg c' None ?s2))))" for c c'
      by (rule ext_trans [OF a execute_ext])
    show ?thesis
      using Some a b by (auto simp: setup_node_def case_prod_beta Let_def)
  qed
  have "events_since s (snd (setup_node env cfg s))
      = events_since s ?s1 @ events_since ?s1 (snd (setup_node env cfg s))"
    by (rule since_append [OF e f])
  then show ?thesis using m by simp
qed


text \<open>
  C4, as amended. In a run with dry-run set, every process that is started is a probe, and
  \<open>execute\<close> starts none. The probes do not look at the dry-run flag: a capability probe
  starts \<open>tool --version\<close> and a package probe starts \<open>python -c "import package"\<close> whatever
  the configuration, and the strategies call them before anything else: the Rust and the
  Flutter setup probe their tool, the Node setup probes at least one package manager, and
  formatting Python probes for ruff whenever the interpreter of the virtual environment
  exists.
\<close>

theorem dry_run_starts_probes_only:
  "(''--dry-run'' \<in> set argv \<or> ''-n'' \<in> set argv \<longrightarrow>
      list_all is_probe (spawns (events_since s (snd (main env argv s)))))
   \<and> (dry_run cfg \<longrightarrow> spawns (events_since s (snd (execute env cfg c cwd s))) = [])
   \<and> spawns (events_since s (snd (has_command env tool s))) = [probe_req tool]
   \<and> spawns (events_since s (snd (has_python_package env python_exe package s)))
       = [package_probe_req python_exe package]
   \<and> probe_req ''cargo'' \<in> set (spawns (events_since s (snd (setup_rust env cfg s))))
   \<and> probe_req ''flutter'' \<in> set (spawns (events_since s (snd (setup_flutter env cfg s))))
   \<and> spawns (events_since s (snd (setup_node env cfg s))) \<noteq> []
   \<and> (path_exists env (fst s) (path_join env ''.venv'' (venv_python (venv_paths cfg))) \<longrightarrow>
        package_probe_req (path_join env ''.venv'' (venv_python (venv_paths cfg))) ''ruff''
          \<in> set (spawns (events_since s (snd (format_python env cfg s)))))"
proof (intro conjI impI)
  assume "''--dry-run'' \<in> set argv \<or> ''-n'' \<in> set argv"
  then show "list_all is_probe (spawns (events_since s (snd (main env argv s))))"
    by (rule dry_run_upper_bound)
next
  assume "dry_run cfg"
  then show "spawns (events_since s (snd (execute env cfg c cwd s))) = []"
    by (simp add: execute_spawns)
next
  show "spawns (events_since s (snd (has_command env tool s))) = [probe_req tool]"
    by simp
  show "spawns (events_since s (snd (has_python_package env python_exe package s)))
       = [package_probe_req python_exe package]"
    by (simp add: has_python_package_eq events_since_def)
  show "probe_req ''cargo'' \<in> set (spawns (events_since s (snd (setup_rust env cfg s))))"
    by (rule setup_rust_probes)
  show "probe_req ''flutter'' \<in> set (spawns (events_since s (snd (setup_flutter env cfg s))))"
    by (rule setup_flutter_probes)
  show "spawns (events_since s (snd (setup_node env cfg s))) \<noteq> []"
    by (rule setup_node_probes)
next
  assume "path_exists env (fst s) (path_join env ''.venv'' (venv_python (venv_paths cfg)))"
  then show "package_probe_req (path_join env ''.venv'' (venv_python (venv_paths cfg))) ''ruff''
          \<in> set (spawns (events_since s (snd (format_python env cfg s))))"
    by (rule format_python_probes)
qed

theorem dry_run_starts_probes_only_witness:
  "(''--dry-run'' \<in> set [''autofix.py'', ''-n''] \<or> ''-n'' \<in> set [''autofix.py'', ''-n''])
   \<and> list_all is_probe
        (spawns (events_since (python_project_venv, [])
           (snd (main (sample_env [''python3'']) [''autofix.py'', ''-n''] (python_project_venv, [])))))
   \<and> spawns (snd (snd (main (sample_env [''python3'']) [''autofix.py'', ''-n''] (python_project_venv, []))))
       = [package_probe_req ''.venv/bin/python'' ''ruff'']
   \<and> dry_run dry
   \<and> spawns (events_since (python_project_venv, [])
         (snd (execute (sample_env [''python3'']) dry (CmdList [''cargo'', ''fetch'']) None (python_project_venv, []))))
       = []
   \<and> path_exists (sample_env [''python3'']) python_project_venv ''.venv/bin/python''
   \<and> package_probe_req ''.venv/bin/python'' ''ruff''
        \<in> set (spawns (events_since (python_project_venv, [])
              (snd (format_python (sample_env [''python3'']) dry (python_project_venv, [])))))"
proof -
  let ?E = "sample_env [''python3'']"
  let ?s = "(python_project_venv, []) :: files st"
  have a: "''--dry-run'' \<in> set [''autofix.py'', ''-n''] \<or> ''-n'' \<in> set [''autofix.py'', ''-n'']"
    by simp
  have d: "dry_run dry" by (simp add: dry_def)
  have pj: "path_join ?E ''.venv'' (venv_python (venv_paths dry)) = ''.venv/bin/python''"
    by (simp add: path_join_def venv_paths_def VENV_PATHS_unix_def sample_env_def dry_def)
  have ex: "path_exists ?E python_project_venv ''.venv/bin/python''"
    by (simp add: sample_defs python_project_venv_def)
  then have ex': "path_exists ?E (fst ?s) (path_join ?E ''.venv'' (venv_python (venv_paths dry)))"
    by (simp add: pj)
  note t = dry_run_starts_probes_only [of "[''autofix.py'', ''-n'']" ?s ?E dry "CmdList [''cargo'', ''fetch'']" None]
  have b: "list_all is_probe (spawns (events_since ?s (snd (main ?E [''autofix.py'', ''-n''] ?s))))"
    using mp [OF t [THEN conjunct1] a] .
  have c: "spawns (events_since ?s (snd (execute ?E dry (CmdList [''cargo'', ''fetch'']) None ?s))) = []"
    using mp [OF t [THEN conjunct2, THEN conjunct1] d] .
  have e: "package_probe_req ''.venv/bin/python'' ''ruff''
        \<in> set (spawns (events_since ?s (snd (format_python ?E dry ?s))))"
    using mp [OF t [THEN conjunct2, THEN conjunct2, THEN conjunct2, THEN conjunct2, THEN conjunct2,
        THEN conjunct2, THEN conjunct2] ex'] by (simp add: pj)
  have f: "spawns (snd (snd (main ?E [''autofix.py'', ''-n''] ?s))) = [package_probe_req ''.venv/bin/python'' ''ruff'']"
    by (simp add: main_defs run_defs sample_defs python_defs python_project_venv_def format_python_def
        has_python_package_def package_probe_req_def Let_def setup_python_def)
  show ?thesis by (intro conjI a b f d c ex e)
qed

text \<open>
  C4 as stated fails: dry runs on the sample machine start processes. On the Node project
  the selection of the package manager starts the probe \<open>npm --version\<close>; on the Python
  project with its virtual environment, formatting starts the package probe for ruff.
\<close>

theorem dry_run_starts_a_probe:
  "fst (main (sample_env [''npm'']) [''autofix.py'', ''--dry-run''] (node_project, [])) = Returned
   \<and> spawns (snd (snd (main (sample_env [''npm'']) [''autofix.py'', ''--dry-run''] (node_project, []))))
       = [\<lparr>sp_cmd = CmdStr ''npm --version'', sp_shell = True, sp_cwd = None\<rparr>]
   \<and> fst (main (sample_env [''python3'']) [''autofix.py'', ''--dry-run''] (python_project_venv, [])) = Returned
   \<and> spawns (snd (snd (main (sample_env [''python3'']) [''autofix.py'', ''--dry-run''] (python_project_venv, []))))
       = [\<lparr>sp_cmd = CmdList [''.venv/bin/python'', ''-c'', ''import ruff''], sp_shell = False, sp_cwd = None\<rparr>]"
  by (simp add: main_defs run_defs sample_defs node_project_def python_defs python_project_venv_def
      format_python_def has_python_package_def package_probe_req_def Let_def)

subsection \<open>The exit status of a run in which a strategy raises\<close>

text \<open>Where no strategy raises, the exit status is 1 exactly when a strategy has returned false.\<close>

lemma not_all_succeeded:
  "\<not> list_ex isl rs \<Longrightarrow> (\<not> list_all succeeded rs) = (Inr False \<in> set rs)"
proof (induction rs)
  case Nil
  then show ?case by simp
next
  case (Cons r rs)
  then show ?case by (cases r) (auto simp: succeeded_def)
qed

lemma exit_one_iff_false:
  assumes "\<not> (''--help'' \<in> set argv \<or> ''-h'' \<in> set argv)"
    and "detect_languages env (fst s) \<noteq> []"
    and "\<not> list_ex isl (strategy_results env
            \<lparr>dry_run = ''--dry-run'' \<in> set argv \<or> ''-n'' \<in> set argv,
             verbose = ''--verbose'' \<in> set argv \<or> ''-v'' \<in> set argv, is_windows = os_nt env\<rparr>
            (detect_languages env (fst s))
            (print (sym_check @ '' Found: '' @ py_join '', '' (detect_languages env (fst s)))
               (print (sym_glass @ '' Detecting projects...'') s)))"
  shows "(exit_status (fst (main env argv s)) = 1)
         = (Inr False \<in> set (strategy_results env
            \<lparr>dry_run = ''--dry-run'' \<in> set argv \<or> ''-n'' \<in> set argv,
             verbose = ''--verbose'' \<in> set argv \<or> ''-v'' \<in> set argv, is_windows = os_nt env\<rparr>
            (detect_languages env (fst s))
            (print (sym_check @ '' Found: '' @ py_join '', '' (detect_languages env (fst s)))
               (print (sym_glass @ '' Detecting projects...'') s))))"
  using exit_status_in_general [of argv env s, THEN conjunct2, THEN conjunct2] assms(1,2)
    not_all_succeeded [OF assms(3)]
  by (simp split: if_splits)

text \<open>
  C9. A dry run on the sample machine with npm installed, in a directory whose
  \<open>package.json\<close> holds the JSON list \<open>[]\<close>: the Node setup returns true, the format-script
  check raises \<open>AttributeError\<close>, and the process ends with exit status 1 although no
  strategy has returned false.
\<close>

theorem exit_one_without_reported_failure:
  "exit_status (fst (main (sample_env [''npm'']) [''autofix.py'', ''-n''] (list_package_json, []))) = 1
   \<and> detect_languages (sample_env [''npm'']) list_package_json = [''node'']
   \<and> strategy_results (sample_env [''npm'']) dry [''node'']
         (print (sym_check @ '' Found: node'')
            (print (sym_glass @ '' Detecting projects...'') (list_package_json, [])))
       = [Inr True, Inl AttributeError]
   \<and> Inr False \<notin> set (strategy_results (sample_env [''npm'']) dry [''node'']
         (print (sym_check @ '' Found: node'')
            (print (sym_glass @ '' Detecting projects...'') (list_package_json, []))))"
  by (simp add: strategy_results_def format_results_def main_defs run_defs sample_defs
      list_package_json_def dry_def exit_status_def)

end
